theory Spec2Isabelle
  imports Main
begin

section \<open>Database bootstrap of the web backend (backend/apps/web/internal/db.py)\<close>

text \<open>
  The module is a straight-line script run once at import: a legacy-file check with a
  rename (lines 12 to 18) and the choice of the database engine (lines 21 to 37). It has
  no function of its own; everything it does is a call into the operating system, the
  logger, peewee or peewee_migrate. The embedding therefore passes an explicit world
  (the files under the data directory, the module global DB, and the history of the
  external calls made so far) through the statements in source order, and returns how
  the module body ended: normally, or with the exception that left it.

  Lines 1 to 10 (the imports and the level of the logger) are not modelled: a call of
  \<open>log.info\<close> is recorded as such, whatever the logging subsystem then does with it. The
  libraries are modelled by what they answer: an external call either returns or raises,
  as the surroundings of the run decide; \<open>os.rename\<close> changes the files as the library
  reference says, and the three database calls of lines 33 to 37 change them as the
  surroundings decide.
\<close>

subsection \<open>Values\<close>

type_synonym path = string

text \<open>
  The regular files that the script can see, each with its content. (Directories and
  links, for which \<open>os.path.exists\<close> also answers \<open>True\<close>, are left out.)
\<close>

type_synonym fs = "path \<rightharpoonup> string"

text \<open>
  Exceptions. The first three are the \<open>OSError\<close> subclasses that \<open>os.rename\<close> raises;
  \<open>LibraryError\<close> stands for whatever peewee, the database driver or peewee_migrate
  raise, tagged with the class name.
\<close>

datatype exn = FileNotFoundError | FileExistsError | PermissionError | LibraryError string

text \<open>
  A peewee database object as \<open>Database.__init__\<close> leaves it: the class of the object,
  the database name (first positional argument) and the keyword arguments kept for the
  driver. Creating the object opens no connection.
\<close>

record database =
  class_name :: string
  db_name :: string
  connect_params :: "(string \<times> string) list"

text \<open>
  The names imported from \<open>config\<close> (line 5). \<open>config.py\<close> is not part of the excerpt, so
  the values are parameters of the model. \<open>DB_ENGINE\<close> is \<open>None\<close> when unset.
\<close>

record config =
  DATA_DIR :: string
  DATABASE_URL :: string
  DB_ENGINE :: "string option"
  DB_HOST :: string
  DB_NAME :: string
  DB_PASSWORD :: string
  DB_PORT :: string
  DB_SCHEMA :: string
  DB_USER :: string

text \<open>The external calls of the script, with their arguments.\<close>

datatype call =
    Os_path_exists path
  | Os_rename path path
  | Log_info string
  | New_PostgresqlExtDatabase string "(string \<times> string) list"
  | Db_url_connect string
  | New_Router database string
  | Router_run database
  | Database_connect database bool

text \<open>
  What the surroundings answer in one run. \<open>rename_fault\<close> is the operating system
  refusing the rename (permissions, read-only file system, ...); \<open>url_connect\<close> is
  \<open>playhouse.db_url.connect\<close>, which parses the URL and builds the database object or
  raises; \<open>run_migrations\<close> is \<open>Router.run\<close> and \<open>open_connection\<close> is
  \<open>Database.connect(reuse_if_open=True)\<close>, each returning normally (\<open>None\<close>) or raising.
  These three calls reach the database, which for SQLite is a file: \<open>connect_writes\<close>,
  \<open>migration_writes\<close> and \<open>connection_writes\<close> give the files that the call leaves behind,
  whether it returns or raises.
\<close>

datatype platform = Posix | Windows

record env =
  platform :: platform
  rename_fault :: "exn option"
  url_connect :: "string \<Rightarrow> exn + database"
  run_migrations :: "database \<Rightarrow> exn option"
  open_connection :: "database \<Rightarrow> exn option"
  connect_writes :: "string \<Rightarrow> fs \<Rightarrow> fs"
  migration_writes :: "database \<Rightarrow> fs \<Rightarrow> fs"
  connection_writes :: "database \<Rightarrow> fs \<Rightarrow> fs"

text \<open>
  The world: the files, the module global \<open>DB\<close> (\<open>None\<close> while unbound or bound to
  Python's \<open>None\<close>), and the history, which lists every external call in the order made,
  each paired with the files as they were when the call was issued.
\<close>

record world =
  files :: fs
  history :: "(fs \<times> call) list"
  DB :: "database option"

datatype outcome = Returned | Raised exn

subsection \<open>Library functions the script calls\<close>

definition os_path_exists :: "fs \<Rightarrow> path \<Rightarrow> bool" where
  "os_path_exists fs p = (fs p \<noteq> None)"

text \<open>
  \<open>os.rename(src, dst)\<close> between regular files, after the Python library reference: a
  missing source raises \<open>FileNotFoundError\<close>; on Windows an existing destination raises
  \<open>FileExistsError\<close>; on Unix an existing destination file is replaced silently; any
  other refusal of the operating system is the fault given by the surroundings.
\<close>

definition os_rename :: "env \<Rightarrow> path \<Rightarrow> path \<Rightarrow> fs \<Rightarrow> exn + fs" where
  "os_rename e src dst fs =
     (case fs src of
        None \<Rightarrow> Inl FileNotFoundError
      | Some content \<Rightarrow>
          (case rename_fault e of
             Some x \<Rightarrow> Inl x
           | None \<Rightarrow>
               if platform e = Windows \<and> fs dst \<noteq> None then Inl FileExistsError
               else Inr ((fs(src := None))(dst \<mapsto> content))))"

text \<open>
  \<open>PostgresqlExtDatabase(name, **kwargs)\<close>: the constructor only stores its arguments.
\<close>

definition PostgresqlExtDatabase :: "string \<Rightarrow> (string \<times> string) list \<Rightarrow> database" where
  "PostgresqlExtDatabase name kwargs =
     \<lparr>class_name = ''PostgresqlExtDatabase'', db_name = name, connect_params = kwargs\<rparr>"

subsection \<open>The script\<close>

definition record_call :: "call \<Rightarrow> world \<Rightarrow> world" where
  "record_call c w = w\<lparr>history := history w @ [(files w, c)]\<rparr>"

text \<open>The two f-strings of lines 13 and 15.\<close>

definition legacy_path :: "config \<Rightarrow> path" where
  "legacy_path c = DATA_DIR c @ ''/ollama.db''"

definition webui_path :: "config \<Rightarrow> path" where
  "webui_path c = DATA_DIR c @ ''/webui.db''"

definition migrated_message :: string where
  "migrated_message = ''Database migrated from Ollama-WebUI successfully.''"

definition connected_message :: "database \<Rightarrow> string" where
  "connected_message h = ''Connected to a '' @ class_name h @ '' database.''"

definition migrate_dir :: string where
  "migrate_dir = ''apps/web/internal/migrations''"

text \<open>Lines 12 to 18.\<close>

definition legacy_migration :: "env \<Rightarrow> config \<Rightarrow> world \<Rightarrow> outcome \<times> world" where
  "legacy_migration e c w =
     (let w1 = record_call (Os_path_exists (legacy_path c)) w
      in if os_path_exists (files w1) (legacy_path c) then
           (let w2 = record_call (Os_rename (legacy_path c) (webui_path c)) w1
            in case os_rename e (legacy_path c) (webui_path c) (files w2) of
                 Inl x \<Rightarrow> (Raised x, w2)
               | Inr fs' \<Rightarrow>
                   (Returned, record_call (Log_info migrated_message) (w2\<lparr>files := fs'\<rparr>)))
         else (Returned, w1))"

text \<open>The keyword arguments of lines 25 to 29, in source order.\<close>

definition postgres_kwargs :: "config \<Rightarrow> (string \<times> string) list" where
  "postgres_kwargs c =
     [(''user'', DB_USER c), (''password'', DB_PASSWORD c), (''host'', DB_HOST c),
      (''port'', DB_PORT c), (''schema'', DB_SCHEMA c)]"

text \<open>Lines 21 to 37.\<close>

definition engine_selection :: "env \<Rightarrow> config \<Rightarrow> world \<Rightarrow> outcome \<times> world" where
  "engine_selection e c w =
     (let w0 = w\<lparr>DB := None\<rparr>
      in if DB_ENGINE c = Some ''postgres'' then
           (let w1 = record_call (New_PostgresqlExtDatabase (DB_NAME c) (postgres_kwargs c)) w0
            in (Returned, w1\<lparr>DB := Some (PostgresqlExtDatabase (DB_NAME c) (postgres_kwargs c))\<rparr>))
         else
           (let w1 = record_call (Db_url_connect (DATABASE_URL c)) w0;
                w1' = w1\<lparr>files := connect_writes e (DATABASE_URL c) (files w1)\<rparr>
            in case url_connect e (DATABASE_URL c) of
                 Inl x \<Rightarrow> (Raised x, w1')
               | Inr h \<Rightarrow>
                   (let w2 = w1'\<lparr>DB := Some h\<rparr>;
                        w3 = record_call (Log_info (connected_message h)) w2;
                        w4 = record_call (New_Router h migrate_dir) w3;
                        w5 = record_call (Router_run h) w4;
                        w5' = w5\<lparr>files := migration_writes e h (files w5)\<rparr>
                    in case run_migrations e h of
                         Some x \<Rightarrow> (Raised x, w5')
                       | None \<Rightarrow>
                           (let w6 = record_call (Database_connect h True) w5';
                                w6' = w6\<lparr>files := connection_writes e h (files w6)\<rparr>
                            in case open_connection e h of
                                 Some x \<Rightarrow> (Raised x, w6')
                               | None \<Rightarrow> (Returned, w6')))))"

text \<open>
  The whole module body, started on the files \<open>fs\<close> with nothing called yet and \<open>DB\<close>
  unbound. An exception in the first part leaves the module before line 21.
\<close>

definition module_start :: "fs \<Rightarrow> world" where
  "module_start fs = \<lparr>files = fs, history = [], DB = None\<rparr>"

definition bootstrap :: "env \<Rightarrow> config \<Rightarrow> fs \<Rightarrow> outcome \<times> world" where
  "bootstrap e c fs =
     (case legacy_migration e c (module_start fs) of
        (Raised x, w) \<Rightarrow> (Raised x, w)
      | (Returned, w) \<Rightarrow> engine_selection e c w)"

subsection \<open>Reading a run\<close>

definition calls :: "world \<Rightarrow> call list" where
  "calls w = map snd (history w)"

fun is_rename :: "call \<Rightarrow> bool" where
  "is_rename (Os_rename _ _) = True"
| "is_rename _ = False"

fun is_migration_run :: "call \<Rightarrow> bool" where
  "is_migration_run (Router_run _) = True"
| "is_migration_run _ = False"

text \<open>The two calls that build a database object.\<close>

fun is_construction :: "call \<Rightarrow> bool" where
  "is_construction (New_PostgresqlExtDatabase _ _) = True"
| "is_construction (Db_url_connect _) = True"
| "is_construction _ = False"

fun is_connection_attempt :: "call \<Rightarrow> bool" where
  "is_connection_attempt (Database_connect _ _) = True"
| "is_connection_attempt _ = False"

fun log_entries :: "call list \<Rightarrow> string list" where
  "log_entries [] = []"
| "log_entries (Log_info m # cs) = m # log_entries cs"
| "log_entries (_ # cs) = log_entries cs"

text \<open>The two construction calls, told apart.\<close>

fun is_postgres_construction :: "call \<Rightarrow> bool" where
  "is_postgres_construction (New_PostgresqlExtDatabase _ _) = True"
| "is_postgres_construction _ = False"

fun is_url_construction :: "call \<Rightarrow> bool" where
  "is_url_construction (Db_url_connect _) = True"
| "is_url_construction _ = False"

text \<open>The worlds that lines 33 to 37 pass through on the URL path.\<close>

definition after_connect :: "env \<Rightarrow> config \<Rightarrow> world \<Rightarrow> world" where
  "after_connect e c w =
     (record_call (Db_url_connect (DATABASE_URL c)) (w\<lparr>DB := None\<rparr>))
       \<lparr>files := connect_writes e (DATABASE_URL c) (files w)\<rparr>"

definition after_run :: "env \<Rightarrow> config \<Rightarrow> database \<Rightarrow> world \<Rightarrow> world" where
  "after_run e c h w =
     (record_call (Router_run h)
       (record_call (New_Router h migrate_dir)
         (record_call (Log_info (connected_message h)) ((after_connect e c w)\<lparr>DB := Some h\<rparr>))))
       \<lparr>files := migration_writes e h (files (after_connect e c w))\<rparr>"

definition after_open :: "env \<Rightarrow> config \<Rightarrow> database \<Rightarrow> world \<Rightarrow> world" where
  "after_open e c h w =
     (record_call (Database_connect h True) (after_run e c h w))
       \<lparr>files := connection_writes e h (files (after_run e c h w))\<rparr>"

subsection \<open>Concrete surroundings, configurations and file systems\<close>

text \<open>
  Inputs on which the theorems below are exercised: surroundings in which every call
  succeeds (on Unix and on Windows), in which the rename is refused, in which no database
  can be reached, in which the migrations fail and in which the final connection is
  refused; configurations for the URL path and for the postgres path; and three file
  systems. Where the surroundings resolve a SQLite database, \<open>Router.run\<close> leaves a
  database file at its path.
\<close>

definition sqlite_database :: database where
  "sqlite_database =
     \<lparr>class_name = ''SqliteDatabase'', db_name = ''/tmp/app/webui.db'', connect_params = []\<rparr>"

definition healthy_env :: env where
  "healthy_env =
     \<lparr>platform = Posix, rename_fault = None,
      url_connect = (\<lambda>u. Inr sqlite_database),
      run_migrations = (\<lambda>h. None), open_connection = (\<lambda>h. None),
      connect_writes = (\<lambda>u f. f),
      migration_writes = (\<lambda>h f. f(db_name h \<mapsto> ''SQLite format 3'')),
      connection_writes = (\<lambda>h f. f)\<rparr>"

definition denied_env :: env where
  "denied_env = healthy_env\<lparr>rename_fault := Some PermissionError\<rparr>"

definition unreachable_env :: env where
  "unreachable_env =
     \<lparr>platform = Posix, rename_fault = None,
      url_connect = (\<lambda>u. Inl (LibraryError ''OperationalError'')),
      run_migrations = (\<lambda>h. Some (LibraryError ''OperationalError'')),
      open_connection = (\<lambda>h. Some (LibraryError ''OperationalError'')),
      connect_writes = (\<lambda>u f. f), migration_writes = (\<lambda>h f. f),
      connection_writes = (\<lambda>h f. f)\<rparr>"

definition broken_migration_env :: env where
  "broken_migration_env =
     healthy_env\<lparr>run_migrations := (\<lambda>h. Some (LibraryError ''MigrationError''))\<rparr>"

definition refused_connection_env :: env where
  "refused_connection_env =
     healthy_env\<lparr>open_connection := (\<lambda>h. Some (LibraryError ''OperationalError''))\<rparr>"

definition windows_env :: env where
  "windows_env = healthy_env\<lparr>platform := Windows\<rparr>"

definition sqlite_config :: config where
  "sqlite_config =
     \<lparr>DATA_DIR = ''/tmp/app'', DATABASE_URL = ''sqlite:///tmp/app/webui.db'',
      DB_ENGINE = None, DB_HOST = [], DB_NAME = [], DB_PASSWORD = [], DB_PORT = [],
      DB_SCHEMA = [], DB_USER = []\<rparr>"

definition postgres_config :: config where
  "postgres_config =
     \<lparr>DATA_DIR = ''/tmp/app'', DATABASE_URL = [],
      DB_ENGINE = Some ''postgres'', DB_HOST = ''db'', DB_NAME = ''webui'',
      DB_PASSWORD = ''secret'', DB_PORT = ''5432'', DB_SCHEMA = ''public'', DB_USER = ''app''\<rparr>"

definition no_files :: fs where
  "no_files = Map.empty"

definition legacy_only :: fs where
  "legacy_only = [''/tmp/app/ollama.db'' \<mapsto> ''X'']"

definition both_files :: fs where
  "both_files = [''/tmp/app/ollama.db'' \<mapsto> ''X'', ''/tmp/app/webui.db'' \<mapsto> ''Y'']"

definition capitalised_config :: config where
  "capitalised_config = postgres_config\<lparr>DB_ENGINE := Some ''Postgres''\<rparr>"

text \<open>
  A configuration whose SQLite database is the file at the legacy path itself, and
  surroundings in which \<open>connect\<close> resolves that URL.
\<close>

definition legacy_url_database :: database where
  "legacy_url_database =
     \<lparr>class_name = ''SqliteDatabase'', db_name = ''/tmp/app/ollama.db'', connect_params = []\<rparr>"

definition legacy_url_config :: config where
  "legacy_url_config = sqlite_config\<lparr>DATABASE_URL := ''sqlite:////tmp/app/ollama.db''\<rparr>"

definition legacy_url_env :: env where
  "legacy_url_env = healthy_env\<lparr>url_connect := (\<lambda>u. Inr legacy_url_database)\<rparr>"

section \<open>Basic facts\<close>

lemma paths_differ: "legacy_path c \<noteq> webui_path c"
  by (simp add: legacy_path_def webui_path_def)

lemma connected_not_migrated [simp]:
  "connected_message h \<noteq> migrated_message" "migrated_message \<noteq> connected_message h"
  by (simp_all add: connected_message_def migrated_message_def)

lemma log_entries_append: "log_entries (xs @ ys) = log_entries xs @ log_entries ys"
  by (induction xs rule: log_entries.induct) simp_all

lemma calls_record_call: "calls (record_call k w) = calls w @ [k]"
  by (simp add: calls_def record_call_def)

lemma files_record_call: "files (record_call k w) = files w"
  by (simp add: record_call_def)

lemma DB_record_call: "DB (record_call k w) = DB w"
  by (simp add: record_call_def)

lemma history_record_call: "history (record_call k w) = history w @ [(files w, k)]"
  by (simp add: record_call_def)

lemma calls_update: "calls (w\<lparr>DB := d\<rparr>) = calls w" "calls (w\<lparr>files := f\<rparr>) = calls w"
  by (simp_all add: calls_def)

lemmas world_simps = calls_record_call files_record_call DB_record_call calls_update

text \<open>The three ways through lines 12 to 18.\<close>

lemma legacy_absent:
  "files w (legacy_path c) = None \<Longrightarrow>
   legacy_migration e c w = (Returned, record_call (Os_path_exists (legacy_path c)) w)"
  by (simp add: legacy_migration_def record_call_def os_path_exists_def Let_def)

lemma legacy_raises:
  "files w (legacy_path c) = Some content \<Longrightarrow>
   os_rename e (legacy_path c) (webui_path c) (files w) = Inl x \<Longrightarrow>
   legacy_migration e c w =
     (Raised x, record_call (Os_rename (legacy_path c) (webui_path c))
                  (record_call (Os_path_exists (legacy_path c)) w))"
  by (simp add: legacy_migration_def record_call_def os_path_exists_def Let_def)

lemma legacy_renames:
  "files w (legacy_path c) = Some content \<Longrightarrow>
   os_rename e (legacy_path c) (webui_path c) (files w) = Inr fs' \<Longrightarrow>
   legacy_migration e c w =
     (Returned, record_call (Log_info migrated_message)
        ((record_call (Os_rename (legacy_path c) (webui_path c))
                  (record_call (Os_path_exists (legacy_path c)) w))\<lparr>files := fs'\<rparr>))"
  by (simp add: legacy_migration_def record_call_def os_path_exists_def Let_def)

lemma os_rename_result:
  "os_rename e src dst fs = Inr fs' \<Longrightarrow>
   \<exists>content. fs src = Some content \<and> fs' = (fs(src := None))(dst \<mapsto> content)"
  by (auto simp: os_rename_def split: option.splits if_splits)

text \<open>
  Lines 21 to 37 rename nothing and never log the migration message; on the postgres path
  they touch no file.
\<close>

lemma engine_postgres_files:
  "DB_ENGINE c = Some ''postgres'' \<Longrightarrow> files (snd (engine_selection e c w)) = files w"
  by (simp add: engine_selection_def Let_def world_simps)

lemma engine_renames:
  "filter is_rename (calls (snd (engine_selection e c w))) = filter is_rename (calls w)"
  by (simp add: engine_selection_def Let_def world_simps split: sum.splits option.splits)

lemma engine_migrated_log:
  "migrated_message \<in> set (log_entries (calls (snd (engine_selection e c w)))) \<longleftrightarrow>
   migrated_message \<in> set (log_entries (calls w))"
  by (simp add: engine_selection_def Let_def world_simps log_entries_append
      split: sum.splits option.splits)

lemma calls_module_start: "calls (module_start fs) = []" "files (module_start fs) = fs"
  by (simp_all add: calls_def module_start_def)

lemma bootstrap_raised:
  "fst (legacy_migration e c (module_start fs)) = Raised x \<Longrightarrow>
   bootstrap e c fs = legacy_migration e c (module_start fs)"
  by (cases "legacy_migration e c (module_start fs)") (simp add: bootstrap_def)

lemma bootstrap_returned:
  "fst (legacy_migration e c (module_start fs)) = Returned \<Longrightarrow>
   bootstrap e c fs = engine_selection e c (snd (legacy_migration e c (module_start fs)))"
  by (cases "legacy_migration e c (module_start fs)") (simp add: bootstrap_def)

lemma legacy_cases:
  obtains (absent) "files w (legacy_path c) = None"
      "legacy_migration e c w = (Returned, record_call (Os_path_exists (legacy_path c)) w)"
  | (raises) content x where "files w (legacy_path c) = Some content"
      "os_rename e (legacy_path c) (webui_path c) (files w) = Inl x"
      "legacy_migration e c w =
        (Raised x, record_call (Os_rename (legacy_path c) (webui_path c))
                  (record_call (Os_path_exists (legacy_path c)) w))"
  | (renames) content where "files w (legacy_path c) = Some content"
      "os_rename e (legacy_path c) (webui_path c) (files w) =
         Inr ((files w)(legacy_path c := None, webui_path c \<mapsto> content))"
      "legacy_migration e c w =
        (Returned, record_call (Log_info migrated_message)
          ((record_call (Os_rename (legacy_path c) (webui_path c))
             (record_call (Os_path_exists (legacy_path c)) w))
           \<lparr>files := (files w)(legacy_path c := None, webui_path c \<mapsto> content)\<rparr>))"
proof (cases "files w (legacy_path c)")
  case None
  then show ?thesis using absent legacy_absent by blast
next
  case (Some content)
  show ?thesis
  proof (cases "os_rename e (legacy_path c) (webui_path c) (files w)")
    case (Inl x)
    then show ?thesis using raises Some legacy_raises by blast
  next
    case (Inr fs')
    with Some os_rename_result [OF Inr]
    have "fs' = (files w)(legacy_path c := None, webui_path c \<mapsto> content)" by auto
    with Inr Some show ?thesis using renames legacy_renames by blast
  qed
qed

lemma legacy_returned_absent:
  "fst (legacy_migration e c w) = Returned \<Longrightarrow>
   files (snd (legacy_migration e c w)) (legacy_path c) = None"
  by (rule legacy_cases [where w = w and e = e and c = c])
     (use paths_differ [of c] in \<open>simp_all add: world_simps\<close>)

lemma legacy_no_construction:
  "\<forall>x\<in>set (history (snd (legacy_migration e c (module_start fs)))). \<not> is_construction (snd x)"
  by (rule legacy_cases [where w = "module_start fs" and e = e and c = c])
     (auto simp: history_record_call module_start_def)

lemmas demo_defs = sqlite_database_def healthy_env_def denied_env_def unreachable_env_def
  sqlite_config_def postgres_config_def no_files_def legacy_only_def both_files_def
  legacy_path_def webui_path_def

lemma order_from_split:
  assumes "xs = pre @ post" "\<forall>k\<in>set pre. \<not> Q k" "\<forall>k\<in>set post. \<not> P k"
  shows "\<forall>i j. i < length xs \<and> j < length xs \<and> P (xs ! i) \<and> Q (xs ! j) \<longrightarrow> i < j"
proof (intro allI impI)
  fix i j
  assume h: "i < length xs \<and> j < length xs \<and> P (xs ! i) \<and> Q (xs ! j)"
  have "\<not> j < length pre"
  proof
    assume "j < length pre"
    then have "xs ! j \<in> set pre" by (simp add: assms(1) nth_append)
    with assms(2) h show False by blast
  qed
  moreover have "i < length pre"
  proof (rule ccontr)
    assume n: "\<not> i < length pre"
    with h have "i - length pre < length post" by (auto simp add: assms(1))
    then have "post ! (i - length pre) \<in> set post" by simp
    with n have "xs ! i \<in> set post" by (simp add: assms(1) nth_append)
    with assms(3) h show False by blast
  qed
  ultimately show "i < j" by simp
qed

text \<open>Lines 21 to 37 on the postgres path.\<close>

lemma engine_postgres:
  "DB_ENGINE c = Some ''postgres'' \<Longrightarrow>
   engine_selection e c w =
     (Returned,
      (record_call (New_PostgresqlExtDatabase (DB_NAME c) (postgres_kwargs c)) (w\<lparr>DB := None\<rparr>))
        \<lparr>DB := Some (PostgresqlExtDatabase (DB_NAME c) (postgres_kwargs c))\<rparr>)"
  by (simp add: engine_selection_def Let_def)

text \<open>Lines 21 to 37 on the URL path: the four ways through.\<close>

lemma engine_generic_cases:
  assumes "DB_ENGINE c \<noteq> Some ''postgres''"
  obtains (connect_fails) x where "url_connect e (DATABASE_URL c) = Inl x"
      "engine_selection e c w = (Raised x, after_connect e c w)"
  | (migration_fails) h x where "url_connect e (DATABASE_URL c) = Inr h"
      "run_migrations e h = Some x"
      "engine_selection e c w = (Raised x, after_run e c h w)"
  | (connection_fails) h x where "url_connect e (DATABASE_URL c) = Inr h"
      "run_migrations e h = None" "open_connection e h = Some x"
      "engine_selection e c w = (Raised x, after_open e c h w)"
  | (completes) h where "url_connect e (DATABASE_URL c) = Inr h"
      "run_migrations e h = None" "open_connection e h = None"
      "engine_selection e c w = (Returned, after_open e c h w)"
proof (cases "url_connect e (DATABASE_URL c)")
  case (Inl x)
  with assms connect_fails show ?thesis
    by (simp add: engine_selection_def Let_def after_connect_def files_record_call)
next
  case (Inr h)
  show ?thesis
  proof (cases "run_migrations e h")
    case (Some x)
    with assms Inr migration_fails show ?thesis
      by (simp add: engine_selection_def Let_def after_connect_def after_run_def after_open_def
          files_record_call)
  next
    case None
    show ?thesis
    proof (cases "open_connection e h")
      case (Some x)
      with assms Inr None connection_fails show ?thesis
        by (simp add: engine_selection_def Let_def after_connect_def after_run_def after_open_def
          files_record_call)
    next
      case n: None
      with assms Inr None completes show ?thesis
        by (simp add: engine_selection_def Let_def after_connect_def after_run_def after_open_def
          files_record_call)
    qed
  qed
qed

lemma calls_after_connect: "calls (after_connect e c w) = calls w @ [Db_url_connect (DATABASE_URL c)]"
  by (simp add: after_connect_def world_simps)

lemma calls_after_run:
  "calls (after_run e c h w) =
     calls w @ [Db_url_connect (DATABASE_URL c), Log_info (connected_message h),
                New_Router h migrate_dir, Router_run h]"
  by (simp add: after_run_def world_simps calls_after_connect)

lemma DB_after_run: "DB (after_run e c h w) = Some h"
  by (simp add: after_run_def world_simps)

lemma calls_after_open:
  "calls (after_open e c h w) = calls (after_run e c h w) @ [Database_connect h True]"
  by (simp add: after_open_def world_simps)

lemma DB_after_open: "DB (after_open e c h w) = Some h"
  by (simp add: after_open_def world_simps DB_after_run)

lemma engine_history:
  "\<exists>post. history (snd (engine_selection e c w)) = history w @ post \<and>
          (\<forall>x\<in>set post. \<not> is_rename (snd x) \<and> (is_construction (snd x) \<longrightarrow> fst x = files w))"
  by (simp add: engine_selection_def Let_def history_record_call files_record_call
      split: sum.splits option.splits)

lemma engine_history_prefix:
  "take (length (history w)) (history (snd (engine_selection e c w))) = history w"
  using engine_history [of e c w] by auto

lemma legacy_calls:
  "calls (snd (legacy_migration e c (module_start fs))) \<in>
     {[Os_path_exists (legacy_path c)],
      [Os_path_exists (legacy_path c), Os_rename (legacy_path c) (webui_path c)],
      [Os_path_exists (legacy_path c), Os_rename (legacy_path c) (webui_path c),
       Log_info migrated_message]}"
  by (rule legacy_cases [where w = "module_start fs" and e = e and c = c])
     (simp_all add: world_simps calls_module_start)

lemma legacy_filters:
  "filter is_migration_run (calls (snd (legacy_migration e c (module_start fs)))) = []"
  "filter is_construction (calls (snd (legacy_migration e c (module_start fs)))) = []"
  "filter is_connection_attempt (calls (snd (legacy_migration e c (module_start fs)))) = []"
  using legacy_calls [of e c fs] by auto

lemma postgres_kwargs_alt:
  "PostgresqlExtDatabase (DB_NAME c) (postgres_kwargs c) =
     \<lparr>class_name = ''PostgresqlExtDatabase'', db_name = DB_NAME c,
      connect_params = [(''user'', DB_USER c), (''password'', DB_PASSWORD c),
        (''host'', DB_HOST c), (''port'', DB_PORT c), (''schema'', DB_SCHEMA c)]\<rparr>"
  by (simp add: PostgresqlExtDatabase_def postgres_kwargs_def)

lemma set_filter_none: "filter P xs = [] \<Longrightarrow> \<forall>k\<in>set xs. \<not> P k"
  by (simp add: filter_empty_conv)

lemma set_filter_single: "filter P xs = [a] \<Longrightarrow> \<forall>k\<in>set xs. P k \<longrightarrow> k = a"
proof
  fix k assume f: "filter P xs = [a]" and k: "k \<in> set xs"
  show "P k \<longrightarrow> k = a"
  proof
    assume "P k"
    with k have "k \<in> set (filter P xs)" by simp
    with f show "k = a" by simp
  qed
qed

lemma healthy_legacy_returns:
  "fst (legacy_migration healthy_env c (module_start fs)) = Returned"
  by (rule legacy_cases [where w = "module_start fs" and e = healthy_env and c = c])
     (simp_all add: os_rename_def healthy_env_def)

lemma history_split:
  "fst (legacy_migration e c (module_start fs)) = Returned \<Longrightarrow>
   \<exists>post. history (snd (bootstrap e c fs)) =
            history (snd (legacy_migration e c (module_start fs))) @ post \<and>
          (\<forall>x\<in>set post. \<not> is_rename (snd x) \<and>
             (is_construction (snd x) \<longrightarrow> fst x (legacy_path c) = None))"
  using engine_history [of e c "snd (legacy_migration e c (module_start fs))"]
    legacy_returned_absent [of e c "module_start fs"]
  by (auto simp: bootstrap_returned)

lemma legacy_rename_when_present:
  "fs (legacy_path c) \<noteq> None \<Longrightarrow>
   \<exists>k\<in>set (calls (snd (legacy_migration e c (module_start fs)))). is_rename k"
  by (rule legacy_cases [where w = "module_start fs" and e = e and c = c])
     (simp_all add: world_simps calls_module_start)

lemma legacy_no_engine_call:
  "\<forall>k\<in>set (calls (snd (legacy_migration e c (module_start fs)))).
     \<not> is_postgres_construction k \<and> \<not> is_url_construction k"
  using legacy_calls [of e c fs] by auto

lemma engine_calls_postgres:
  "DB_ENGINE c = Some ''postgres'' \<Longrightarrow>
   \<exists>post. calls (snd (engine_selection e c w)) = calls w @ post \<and>
          (\<exists>k\<in>set post. is_postgres_construction k) \<and>
          (\<forall>k\<in>set post. \<not> is_url_construction k)"
  by (simp add: engine_postgres world_simps)

lemma engine_calls_generic:
  "DB_ENGINE c \<noteq> Some ''postgres'' \<Longrightarrow>
   \<exists>post. calls (snd (engine_selection e c w)) = calls w @ post \<and>
          (\<exists>k\<in>set post. is_url_construction k) \<and>
          (\<forall>k\<in>set post. \<not> is_postgres_construction k)"
  by (rule engine_generic_cases [where e = e and c = c and w = w])
     (simp_all add: world_simps calls_after_connect calls_after_run calls_after_open)

lemma legacy_config_irrelevant:
  "DATA_DIR c' = DATA_DIR c \<Longrightarrow> legacy_migration e c' w = legacy_migration e c w"
proof -
  assume "DATA_DIR c' = DATA_DIR c"
  then have "legacy_path c' = legacy_path c" "webui_path c' = webui_path c"
    by (simp_all add: legacy_path_def webui_path_def)
  then show ?thesis by (simp add: legacy_migration_def Let_def)
qed

lemma engine_url_irrelevant:
  "DB_ENGINE c = Some ''postgres'' \<Longrightarrow>
   engine_selection e (c\<lparr>DATABASE_URL := url\<rparr>) w = engine_selection e c w"
  by (simp add: engine_selection_def postgres_kwargs_def Let_def)

lemma engine_parameters_irrelevant:
  "DB_ENGINE c \<noteq> Some ''postgres'' \<Longrightarrow>
   engine_selection e (c\<lparr>DB_NAME := name, DB_USER := user, DB_PASSWORD := password,
                     DB_HOST := host, DB_PORT := port, DB_SCHEMA := schema\<rparr>) w =
   engine_selection e c w"
  by (simp add: engine_selection_def Let_def)

lemma engine_outcome_world_free:
  "fst (engine_selection e c w) = fst (engine_selection e c v)"
  "DB (snd (engine_selection e c w)) = DB (snd (engine_selection e c v))"
  by (simp_all add: engine_selection_def Let_def world_simps split: sum.splits option.splits)

lemma bootstrap_without_legacy:
  "fs (legacy_path c) = None \<Longrightarrow>
   bootstrap e c fs =
     engine_selection e c (record_call (Os_path_exists (legacy_path c)) (module_start fs))"
  by (simp add: bootstrap_def legacy_absent calls_module_start)

lemma bootstrap_rename_raises:
  "fs (legacy_path c) = Some content \<Longrightarrow>
   os_rename e (legacy_path c) (webui_path c) fs = Inl x \<Longrightarrow>
   bootstrap e c fs =
     (Raised x,
      \<lparr>files = fs,
       history = [(fs, Os_path_exists (legacy_path c)),
                  (fs, Os_rename (legacy_path c) (webui_path c))],
       DB = None\<rparr>)"
  by (simp add: bootstrap_def legacy_raises [where content = content] calls_module_start)
     (simp add: record_call_def module_start_def)

lemma returned_means_renamed:
  "fst (legacy_migration e c (module_start fs)) = Returned \<Longrightarrow>
   fs (legacy_path c) = None \<or>
   (\<exists>fs'. os_rename e (legacy_path c) (webui_path c) fs = Inr fs')"
  by (rule legacy_cases [where w = "module_start fs" and e = e and c = c])
     (simp_all add: calls_module_start)

lemma bootstrap_returned_legacy:
  "fst (bootstrap e c fs) = Returned \<Longrightarrow> fst (legacy_migration e c (module_start fs)) = Returned"
proof (cases "fst (legacy_migration e c (module_start fs))")
  case (Raised x)
  assume "fst (bootstrap e c fs) = Returned"
  with bootstrap_raised [OF Raised] Raised show ?thesis by simp
qed simp

text \<open>What the history and the files show of lines 12 to 18 once the run has gone on.\<close>

lemma bootstrap_history_after_rename:
  assumes "fs (legacy_path c) = Some content"
    and "os_rename e (legacy_path c) (webui_path c) fs = Inr fs'"
  shows "take 3 (history (snd (bootstrap e c fs))) =
           [(fs, Os_path_exists (legacy_path c)),
            (fs, Os_rename (legacy_path c) (webui_path c)),
            (fs', Log_info migrated_message)]"
proof -
  let ?w = "record_call (Log_info migrated_message)
        ((record_call (Os_rename (legacy_path c) (webui_path c))
           (record_call (Os_path_exists (legacy_path c)) (module_start fs)))\<lparr>files := fs'\<rparr>)"
  have b: "bootstrap e c fs = engine_selection e c ?w"
    using assms
    by (simp add: bootstrap_def legacy_renames [where content = content] calls_module_start)
  have h: "history ?w =
           [(fs, Os_path_exists (legacy_path c)),
            (fs, Os_rename (legacy_path c) (webui_path c)),
            (fs', Log_info migrated_message)]"
    by (simp add: record_call_def module_start_def)
  have l: "length (history ?w) = 3"
    by (simp add: h)
  have p: "take (length (history ?w)) (history (snd (bootstrap e c fs))) = history ?w"
    unfolding b by (rule engine_history_prefix)
  from p [unfolded l, unfolded h] show ?thesis .
qed

lemma bootstrap_history_absent:
  assumes "fs (legacy_path c) = None"
  shows "take 1 (history (snd (bootstrap e c fs))) = [(fs, Os_path_exists (legacy_path c))]"
    and "\<forall>x\<in>set (history (snd (bootstrap e c fs))). is_construction (snd x) \<longrightarrow> fst x = fs"
proof -
  let ?w = "record_call (Os_path_exists (legacy_path c)) (module_start fs)"
  have b: "bootstrap e c fs = engine_selection e c ?w"
    using assms by (rule bootstrap_without_legacy [where fs = fs and c = c])
  have h: "history ?w = [(fs, Os_path_exists (legacy_path c))]" "files ?w = fs"
    by (simp_all add: record_call_def module_start_def)
  have l: "length (history ?w) = 1"
    by (simp add: h)
  have p: "take (length (history ?w)) (history (snd (bootstrap e c fs))) = history ?w"
    unfolding b by (rule engine_history_prefix)
  from p [unfolded l, unfolded h(1)]
  show "take 1 (history (snd (bootstrap e c fs))) = [(fs, Os_path_exists (legacy_path c))]" .
  from engine_history [of e c ?w]
  show "\<forall>x\<in>set (history (snd (bootstrap e c fs))). is_construction (snd x) \<longrightarrow> fst x = fs"
    by (auto simp: b h)
qed

lemma engine_keeps_absent:
  assumes "files w p = None"
    and "\<forall>f. f p = None \<longrightarrow> connect_writes e (DATABASE_URL c) f p = None"
    and "\<forall>h. url_connect e (DATABASE_URL c) = Inr h \<longrightarrow>
           (\<forall>f. f p = None \<longrightarrow> migration_writes e h f p = None \<and>
                                connection_writes e h f p = None)"
  shows "files (snd (engine_selection e c w)) p = None"
  using assms
  by (simp add: engine_selection_def Let_def files_record_call split: sum.splits option.splits)

lemma literals:
  "legacy_path c = DATA_DIR c @ ''/ollama.db''"
  "webui_path c = DATA_DIR c @ ''/webui.db''"
  "migrated_message = ''Database migrated from Ollama-WebUI successfully.''"
  by (simp_all add: legacy_path_def webui_path_def migrated_message_def)

lemmas run_defs = bootstrap_def legacy_migration_def engine_selection_def module_start_def
  record_call_def os_path_exists_def os_rename_def calls_def Let_def

section \<open>The legacy file (lines 12 to 18)\<close>

text \<open>
  Claim C1, as amended. When a file is at \<open>DATA_DIR/ollama.db\<close> and \<open>os.rename\<close> returns,
  the run begins with the existence check, the rename of that path to
  \<open>DATA_DIR/webui.db\<close> and the log call with the text ``Database migrated from
  Ollama-WebUI successfully.'', the last issued on files in which the content is at
  \<open>webui.db\<close> and no longer at \<open>ollama.db\<close>; it makes no other rename, and on the postgres
  path these are the files it ends with. When \<open>os.rename\<close> raises, the exception leaves
  the module at line 15 with the files unchanged and the message not logged. When no file
  is at \<open>DATA_DIR/ollama.db\<close>, the run renames nothing, never logs the message, and builds
  its database object on the files it started with.
\<close>

theorem legacy_file_step:
  fixes e c fs
  defines "w' \<equiv> snd (bootstrap e c fs)"
  shows "(fs (DATA_DIR c @ ''/ollama.db'') = Some content \<and>
          os_rename e (DATA_DIR c @ ''/ollama.db'') (DATA_DIR c @ ''/webui.db'') fs = Inr fs' \<longrightarrow>
            fs' = fs(DATA_DIR c @ ''/ollama.db'' := None, DATA_DIR c @ ''/webui.db'' \<mapsto> content) \<and>
            take 3 (history w') =
              [(fs, Os_path_exists (DATA_DIR c @ ''/ollama.db'')),
               (fs, Os_rename (DATA_DIR c @ ''/ollama.db'') (DATA_DIR c @ ''/webui.db'')),
               (fs', Log_info ''Database migrated from Ollama-WebUI successfully.'')] \<and>
            filter is_rename (calls w') =
              [Os_rename (DATA_DIR c @ ''/ollama.db'') (DATA_DIR c @ ''/webui.db'')] \<and>
            ''Database migrated from Ollama-WebUI successfully.'' \<in> set (log_entries (calls w')) \<and>
            (DB_ENGINE c = Some ''postgres'' \<longrightarrow> files w' = fs'))
       \<and> (fs (DATA_DIR c @ ''/ollama.db'') = Some content \<and>
          os_rename e (DATA_DIR c @ ''/ollama.db'') (DATA_DIR c @ ''/webui.db'') fs = Inl x \<longrightarrow>
            bootstrap e c fs =
              (Raised x,
               \<lparr>files = fs,
                history =
                  [(fs, Os_path_exists (DATA_DIR c @ ''/ollama.db'')),
                   (fs, Os_rename (DATA_DIR c @ ''/ollama.db'') (DATA_DIR c @ ''/webui.db''))],
                DB = None\<rparr>) \<and>
            ''Database migrated from Ollama-WebUI successfully.'' \<notin> set (log_entries (calls w')))
       \<and> (fs (DATA_DIR c @ ''/ollama.db'') = None \<longrightarrow>
            filter is_rename (calls w') = [] \<and>
            ''Database migrated from Ollama-WebUI successfully.'' \<notin> set (log_entries (calls w')) \<and>
            take 1 (history w') = [(fs, Os_path_exists (DATA_DIR c @ ''/ollama.db''))] \<and>
            (\<forall>x\<in>set (history w'). is_construction (snd x) \<longrightarrow> fst x = fs))"
proof (intro conjI impI)
  assume a: "fs (DATA_DIR c @ ''/ollama.db'') = None"
  then have a': "fs (legacy_path c) = None" by (simp add: literals)
  then have b: "bootstrap e c fs =
      engine_selection e c (record_call (Os_path_exists (legacy_path c)) (module_start fs))"
    by (rule bootstrap_without_legacy [where fs = fs and c = c])
  show "filter is_rename (calls w') = []"
    by (simp add: w'_def b engine_renames world_simps calls_module_start)
  have "migrated_message \<notin> set (log_entries (calls w'))"
    by (simp add: w'_def b engine_migrated_log world_simps calls_module_start)
  then show "''Database migrated from Ollama-WebUI successfully.'' \<notin> set (log_entries (calls w'))"
    by (simp add: literals)
  from bootstrap_history_absent(1) [where fs = fs and c = c and e = e, OF a']
  show "take 1 (history w') = [(fs, Os_path_exists (DATA_DIR c @ ''/ollama.db''))]"
    by (simp add: w'_def literals)
  from bootstrap_history_absent(2) [where fs = fs and c = c and e = e, OF a']
  show "\<forall>x\<in>set (history w'). is_construction (snd x) \<longrightarrow> fst x = fs"
    by (simp add: w'_def)
next
  assume a: "fs (DATA_DIR c @ ''/ollama.db'') = Some content \<and>
          os_rename e (DATA_DIR c @ ''/ollama.db'') (DATA_DIR c @ ''/webui.db'') fs = Inr fs'"
  then have p: "fs (legacy_path c) = Some content"
    and r: "os_rename e (legacy_path c) (webui_path c) fs = Inr fs'"
    by (simp_all add: literals)
  have b: "bootstrap e c fs =
      engine_selection e c (record_call (Log_info migrated_message)
        ((record_call (Os_rename (legacy_path c) (webui_path c))
           (record_call (Os_path_exists (legacy_path c)) (module_start fs)))\<lparr>files := fs'\<rparr>))"
    using p r
    by (simp add: bootstrap_def legacy_renames [where content = content] calls_module_start)
  from p os_rename_result [OF r]
  have c: "fs' = fs(legacy_path c := None, webui_path c \<mapsto> content)" by auto
  then show "fs' = fs(DATA_DIR c @ ''/ollama.db'' := None, DATA_DIR c @ ''/webui.db'' \<mapsto> content)"
    by (simp add: literals)
  from bootstrap_history_after_rename [where fs = fs and c = c, OF p r]
  show "take 3 (history w') =
              [(fs, Os_path_exists (DATA_DIR c @ ''/ollama.db'')),
               (fs, Os_rename (DATA_DIR c @ ''/ollama.db'') (DATA_DIR c @ ''/webui.db'')),
               (fs', Log_info ''Database migrated from Ollama-WebUI successfully.'')]"
    by (simp add: w'_def literals)
  have "filter is_rename (calls w') = [Os_rename (legacy_path c) (webui_path c)]"
    by (simp add: w'_def b engine_renames world_simps calls_module_start)
  then show "filter is_rename (calls w') =
              [Os_rename (DATA_DIR c @ ''/ollama.db'') (DATA_DIR c @ ''/webui.db'')]"
    by (simp add: literals)
  have "migrated_message \<in> set (log_entries (calls w'))"
    by (simp add: w'_def b engine_migrated_log world_simps calls_module_start log_entries_append)
  then show "''Database migrated from Ollama-WebUI successfully.'' \<in> set (log_entries (calls w'))"
    by (simp add: literals)
  show "files w' = fs'" if "DB_ENGINE c = Some ''postgres''"
    using that by (simp add: w'_def b engine_postgres_files world_simps)
next
  assume a: "fs (DATA_DIR c @ ''/ollama.db'') = Some content \<and>
          os_rename e (DATA_DIR c @ ''/ollama.db'') (DATA_DIR c @ ''/webui.db'') fs = Inl x"
  then have p: "fs (legacy_path c) = Some content"
    and r: "os_rename e (legacy_path c) (webui_path c) fs = Inl x"
    by (simp_all add: literals)
  from bootstrap_rename_raises [where fs = fs and c = c, OF p r]
  show b: "bootstrap e c fs =
              (Raised x,
               \<lparr>files = fs,
                history =
                  [(fs, Os_path_exists (DATA_DIR c @ ''/ollama.db'')),
                   (fs, Os_rename (DATA_DIR c @ ''/ollama.db'') (DATA_DIR c @ ''/webui.db''))],
                DB = None\<rparr>)"
    by (simp add: literals)
  show "''Database migrated from Ollama-WebUI successfully.'' \<notin> set (log_entries (calls w'))"
    by (simp add: w'_def b calls_def)
qed

theorem legacy_file_step_witness:
  "legacy_only (DATA_DIR sqlite_config @ ''/ollama.db'') = Some ''X'' \<and>
   os_rename healthy_env (DATA_DIR sqlite_config @ ''/ollama.db'')
       (DATA_DIR sqlite_config @ ''/webui.db'') legacy_only =
     Inr [''/tmp/app/webui.db'' \<mapsto> ''X''] \<and>
   take 3 (history (snd (bootstrap healthy_env sqlite_config legacy_only))) =
     [(legacy_only, Os_path_exists ''/tmp/app/ollama.db''),
      (legacy_only, Os_rename ''/tmp/app/ollama.db'' ''/tmp/app/webui.db''),
      ([''/tmp/app/webui.db'' \<mapsto> ''X''],
       Log_info ''Database migrated from Ollama-WebUI successfully.'')] \<and>
   os_rename denied_env (DATA_DIR sqlite_config @ ''/ollama.db'')
       (DATA_DIR sqlite_config @ ''/webui.db'') legacy_only = Inl PermissionError \<and>
   fst (bootstrap denied_env sqlite_config legacy_only) = Raised PermissionError \<and>
   no_files (DATA_DIR sqlite_config @ ''/ollama.db'') = None \<and>
   filter is_rename (calls (snd (bootstrap healthy_env sqlite_config no_files))) = []"
proof -
  have d: "DATA_DIR sqlite_config = ''/tmp/app''"
    by (simp add: sqlite_config_def)
  have a: "no_files (DATA_DIR sqlite_config @ ''/ollama.db'') = None"
    by (simp add: no_files_def)
  have b: "legacy_only (DATA_DIR sqlite_config @ ''/ollama.db'') = Some ''X''"
    by (simp add: d legacy_only_def)
  have e: "legacy_only(''/tmp/app/ollama.db'' := None, ''/tmp/app/webui.db'' \<mapsto> ''X'') =
      [''/tmp/app/webui.db'' \<mapsto> ''X'']"
    by (simp add: legacy_only_def)
  have c: "os_rename healthy_env (DATA_DIR sqlite_config @ ''/ollama.db'')
       (DATA_DIR sqlite_config @ ''/webui.db'') legacy_only =
     Inr [''/tmp/app/webui.db'' \<mapsto> ''X'']"
    by (simp add: os_rename_def d e healthy_env_def) (simp add: legacy_only_def)
  have f: "os_rename denied_env (DATA_DIR sqlite_config @ ''/ollama.db'')
       (DATA_DIR sqlite_config @ ''/webui.db'') legacy_only = Inl PermissionError"
    by (simp add: os_rename_def d denied_env_def healthy_env_def legacy_only_def)
  note t1 = legacy_file_step [where fs = no_files and c = sqlite_config and e = healthy_env]
  note t2 = legacy_file_step [where fs = legacy_only and c = sqlite_config and e = healthy_env
        and content = "''X''" and fs' = "[''/tmp/app/webui.db'' \<mapsto> ''X'']"]
  note t3 = legacy_file_step [where fs = legacy_only and c = sqlite_config and e = denied_env
        and content = "''X''" and x = PermissionError]
  have r1: "filter is_rename (calls (snd (bootstrap healthy_env sqlite_config no_files))) = []"
    using a t1 by blast
  have r2: "take 3 (history (snd (bootstrap healthy_env sqlite_config legacy_only))) =
     [(legacy_only, Os_path_exists ''/tmp/app/ollama.db''),
      (legacy_only, Os_rename ''/tmp/app/ollama.db'' ''/tmp/app/webui.db''),
      ([''/tmp/app/webui.db'' \<mapsto> ''X''],
       Log_info ''Database migrated from Ollama-WebUI successfully.'')]"
    using b c t2 unfolding d by simp
  have r3: "fst (bootstrap denied_env sqlite_config legacy_only) = Raised PermissionError"
    using b f t3 by simp
  from a b c f r1 r2 r3 show ?thesis by blast
qed

text \<open>
  Claim C1 as stated promises the rename and the log entry in every run that finds the
  legacy file. With the rename refused by the operating system the file stays where it
  was, nothing is at \<open>webui.db\<close>, and line 16 is never reached.
\<close>

theorem legacy_rename_refused:
  "legacy_only ''/tmp/app/ollama.db'' = Some ''X'' \<and>
   DATA_DIR sqlite_config = ''/tmp/app'' \<and>
   fst (bootstrap denied_env sqlite_config legacy_only) = Raised PermissionError \<and>
   ''Database migrated from Ollama-WebUI successfully.'' \<notin>
     set (log_entries (calls (snd (bootstrap denied_env sqlite_config legacy_only)))) \<and>
   files (snd (bootstrap denied_env sqlite_config legacy_only)) ''/tmp/app/ollama.db'' = Some ''X'' \<and>
   files (snd (bootstrap denied_env sqlite_config legacy_only)) ''/tmp/app/webui.db'' = None"
  by (simp add: run_defs demo_defs)

text \<open>
  Claim C6, as amended. After a first run that completed, a second run on the files it
  left performs no rename provided no file is then at \<open>DATA_DIR/ollama.db\<close>: whatever
  the surroundings then answer, lines 12 to 18 pass without an exception, no rename is
  called, the migration message is not logged and the database object is built on the
  files as the first run left them; with the surroundings of the first run the second
  run completes again. The first run leaves no file at that path on the postgres path,
  and on the URL path whenever the three database calls of lines 33 to 37 do not create
  it.
\<close>

theorem second_run_skips_rename:
  fixes e e2 c fs
  defines "fs1 \<equiv> files (snd (bootstrap e c fs))"
  defines "w2 \<equiv> snd (bootstrap e2 c fs1)"
  assumes first: "fst (bootstrap e c fs) = Returned"
  shows "(DB_ENGINE c = Some ''postgres'' \<longrightarrow> fs1 (DATA_DIR c @ ''/ollama.db'') = None)
       \<and> ((\<forall>f. f (DATA_DIR c @ ''/ollama.db'') = None \<longrightarrow>
               connect_writes e (DATABASE_URL c) f (DATA_DIR c @ ''/ollama.db'') = None) \<and>
          (\<forall>h. url_connect e (DATABASE_URL c) = Inr h \<longrightarrow>
             (\<forall>f. f (DATA_DIR c @ ''/ollama.db'') = None \<longrightarrow>
                migration_writes e h f (DATA_DIR c @ ''/ollama.db'') = None \<and>
                connection_writes e h f (DATA_DIR c @ ''/ollama.db'') = None)) \<longrightarrow>
            fs1 (DATA_DIR c @ ''/ollama.db'') = None)
       \<and> (fs1 (DATA_DIR c @ ''/ollama.db'') = None \<longrightarrow>
            fst (legacy_migration e2 c (module_start fs1)) = Returned \<and>
            filter is_rename (calls w2) = [] \<and>
            ''Database migrated from Ollama-WebUI successfully.'' \<notin> set (log_entries (calls w2)) \<and>
            take 1 (history w2) = [(fs1, Os_path_exists (DATA_DIR c @ ''/ollama.db''))] \<and>
            (\<forall>x\<in>set (history w2). is_construction (snd x) \<longrightarrow> fst x = fs1) \<and>
            fst (bootstrap e c fs1) = Returned)"
proof -
  let ?l = "snd (legacy_migration e c (module_start fs))"
  have lr: "fst (legacy_migration e c (module_start fs)) = Returned"
    by (rule bootstrap_returned_legacy [OF first])
  have b1: "bootstrap e c fs = engine_selection e c ?l"
    by (rule bootstrap_returned [OF lr])
  have la: "files ?l (legacy_path c) = None"
    by (rule legacy_returned_absent [OF lr])
  have one: "fs1 (DATA_DIR c @ ''/ollama.db'') = None" if pg: "DB_ENGINE c = Some ''postgres''"
    using la by (simp add: fs1_def b1 engine_postgres_files [OF pg] literals)
  have two: "fs1 (DATA_DIR c @ ''/ollama.db'') = None"
    if fr: "(\<forall>f. f (DATA_DIR c @ ''/ollama.db'') = None \<longrightarrow>
               connect_writes e (DATABASE_URL c) f (DATA_DIR c @ ''/ollama.db'') = None) \<and>
          (\<forall>h. url_connect e (DATABASE_URL c) = Inr h \<longrightarrow>
             (\<forall>f. f (DATA_DIR c @ ''/ollama.db'') = None \<longrightarrow>
                migration_writes e h f (DATA_DIR c @ ''/ollama.db'') = None \<and>
                connection_writes e h f (DATA_DIR c @ ''/ollama.db'') = None))"
  proof -
    from la have "files ?l (DATA_DIR c @ ''/ollama.db'') = None"
      by (simp add: literals)
    from engine_keeps_absent [where w = ?l and e = e and c = c, OF this] fr
    show ?thesis unfolding fs1_def b1 by blast
  qed
  have three: "fst (legacy_migration e2 c (module_start fs1)) = Returned \<and>
            filter is_rename (calls w2) = [] \<and>
            ''Database migrated from Ollama-WebUI successfully.'' \<notin> set (log_entries (calls w2)) \<and>
            take 1 (history w2) = [(fs1, Os_path_exists (DATA_DIR c @ ''/ollama.db''))] \<and>
            (\<forall>x\<in>set (history w2). is_construction (snd x) \<longrightarrow> fst x = fs1) \<and>
            fst (bootstrap e c fs1) = Returned"
    if ab: "fs1 (DATA_DIR c @ ''/ollama.db'') = None"
  proof -
    from ab have a: "fs1 (legacy_path c) = None"
      by (simp add: literals)
    have l: "fst (legacy_migration e2 c (module_start fs1)) = Returned"
      by (simp add: legacy_absent a calls_module_start)
    have b: "\<And>e'. bootstrap e' c fs1 =
        engine_selection e' c (record_call (Os_path_exists (legacy_path c)) (module_start fs1))"
      using a by (rule bootstrap_without_legacy [where fs = fs1 and c = c])
    have r: "filter is_rename (calls w2) = []"
      by (simp add: w2_def b engine_renames world_simps calls_module_start)
    have "migrated_message \<notin> set (log_entries (calls w2))"
      by (simp add: w2_def b engine_migrated_log world_simps calls_module_start)
    then have m: "''Database migrated from Ollama-WebUI successfully.'' \<notin> set (log_entries (calls w2))"
      by (simp add: literals)
    from bootstrap_history_absent(1) [where fs = fs1 and c = c and e = e2, OF a]
    have t: "take 1 (history w2) = [(fs1, Os_path_exists (DATA_DIR c @ ''/ollama.db''))]"
      by (simp add: w2_def literals)
    from bootstrap_history_absent(2) [where fs = fs1 and c = c and e = e2, OF a]
    have k: "\<forall>x\<in>set (history w2). is_construction (snd x) \<longrightarrow> fst x = fs1"
      by (simp add: w2_def)
    have o: "fst (bootstrap e c fs1) = Returned"
      using engine_outcome_world_free(1)
        [of e c "record_call (Os_path_exists (legacy_path c)) (module_start fs1)" ?l] first
      by (simp add: b b1)
    from l r m t k o show ?thesis by blast
  qed
  from one two three show ?thesis by blast
qed

theorem second_run_skips_rename_witness:
  "fst (bootstrap healthy_env sqlite_config legacy_only) = Returned \<and>
   files (snd (bootstrap healthy_env sqlite_config legacy_only))
     (DATA_DIR sqlite_config @ ''/ollama.db'') = None \<and>
   filter is_rename
     (calls (snd (bootstrap unreachable_env sqlite_config
        (files (snd (bootstrap healthy_env sqlite_config legacy_only)))))) = [] \<and>
   fst (bootstrap healthy_env sqlite_config
        (files (snd (bootstrap healthy_env sqlite_config legacy_only)))) = Returned \<and>
   fst (bootstrap healthy_env postgres_config legacy_only) = Returned \<and>
   DB_ENGINE postgres_config = Some ''postgres'' \<and>
   files (snd (bootstrap healthy_env postgres_config legacy_only))
     (DATA_DIR postgres_config @ ''/ollama.db'') = None"
proof -
  have a: "fst (bootstrap healthy_env sqlite_config legacy_only) = Returned"
    by (simp add: run_defs demo_defs)
  have b: "fst (bootstrap healthy_env postgres_config legacy_only) = Returned"
    by (simp add: run_defs demo_defs)
  have pg: "DB_ENGINE postgres_config = Some ''postgres''"
    by (simp add: postgres_config_def)
  have fr: "(\<forall>f. f (DATA_DIR sqlite_config @ ''/ollama.db'') = None \<longrightarrow>
               connect_writes healthy_env (DATABASE_URL sqlite_config) f
                 (DATA_DIR sqlite_config @ ''/ollama.db'') = None) \<and>
          (\<forall>h. url_connect healthy_env (DATABASE_URL sqlite_config) = Inr h \<longrightarrow>
             (\<forall>f. f (DATA_DIR sqlite_config @ ''/ollama.db'') = None \<longrightarrow>
                migration_writes healthy_env h f (DATA_DIR sqlite_config @ ''/ollama.db'') = None \<and>
                connection_writes healthy_env h f (DATA_DIR sqlite_config @ ''/ollama.db'') = None))"
    by (auto simp: healthy_env_def sqlite_config_def sqlite_database_def)
  note t1 = second_run_skips_rename [OF a, where ?e2.0 = unreachable_env]
  note t2 = second_run_skips_rename [OF b, where ?e2.0 = healthy_env]
  have r0: "files (snd (bootstrap healthy_env sqlite_config legacy_only))
     (DATA_DIR sqlite_config @ ''/ollama.db'') = None"
    using fr t1 by blast
  have r1: "filter is_rename
     (calls (snd (bootstrap unreachable_env sqlite_config
        (files (snd (bootstrap healthy_env sqlite_config legacy_only)))))) = [] \<and>
     fst (bootstrap healthy_env sqlite_config
        (files (snd (bootstrap healthy_env sqlite_config legacy_only)))) = Returned"
    using r0 t1 by blast
  have r2: "files (snd (bootstrap healthy_env postgres_config legacy_only))
     (DATA_DIR postgres_config @ ''/ollama.db'') = None"
    using pg t2 by blast
  from a b pg r0 r1 r2 show ?thesis by blast
qed

text \<open>
  Claim C6 as stated takes the legacy path to be empty after any successful first run.
  With \<open>DATABASE_URL\<close> naming the SQLite file \<open>DATA_DIR/ollama.db\<close> itself, the first run
  renames the legacy file and then \<open>Router.run\<close> creates the database at the old path; the
  second run finds it there and renames again.
\<close>

theorem second_run_renames_again:
  "DATA_DIR legacy_url_config = ''/tmp/app'' \<and>
   DATABASE_URL legacy_url_config = ''sqlite:////tmp/app/ollama.db'' \<and>
   fst (bootstrap legacy_url_env legacy_url_config legacy_only) = Returned \<and>
   files (snd (bootstrap legacy_url_env legacy_url_config legacy_only)) ''/tmp/app/ollama.db'' =
     Some ''SQLite format 3'' \<and>
   filter is_rename
     (calls (snd (bootstrap legacy_url_env legacy_url_config
        (files (snd (bootstrap legacy_url_env legacy_url_config legacy_only)))))) =
     [Os_rename ''/tmp/app/ollama.db'' ''/tmp/app/webui.db'']"
  by (simp add: run_defs demo_defs legacy_url_config_def legacy_url_env_def
      legacy_url_database_def)

text \<open>
  Claim C4, as amended. When the legacy file is there and \<open>os.rename\<close> raises, that
  exception leaves the module at line 15: nothing is logged, no database object is built,
  \<open>DB\<close> is never bound, and the files are exactly as before, so a failed rename loses
  nothing. Where the platform refuses to replace an existing destination (Windows) that
  is such a failure, with \<open>FileExistsError\<close>. Where the platform replaces it (Unix) the
  rename succeeds: line 16 logs success on files in which \<open>webui.db\<close> holds the content of
  the legacy file, whatever was there before, and on the postgres path the run completes
  with exactly these files.
\<close>

theorem rename_failure_fatal:
  fixes e c fs
  defines "w' \<equiv> snd (bootstrap e c fs)"
  assumes present: "fs (DATA_DIR c @ ''/ollama.db'') = Some content"
  shows "(os_rename e (DATA_DIR c @ ''/ollama.db'') (DATA_DIR c @ ''/webui.db'') fs = Inl x \<longrightarrow>
            bootstrap e c fs =
              (Raised x,
               \<lparr>files = fs,
                history =
                  [(fs, Os_path_exists (DATA_DIR c @ ''/ollama.db'')),
                   (fs, Os_rename (DATA_DIR c @ ''/ollama.db'') (DATA_DIR c @ ''/webui.db''))],
                DB = None\<rparr>))
       \<and> (platform e = Windows \<and> rename_fault e = None \<and>
          fs (DATA_DIR c @ ''/webui.db'') \<noteq> None \<longrightarrow>
            fst (bootstrap e c fs) = Raised FileExistsError \<and> files w' = fs)
       \<and> (platform e = Posix \<and> rename_fault e = None \<longrightarrow>
            take 3 (history w') =
              [(fs, Os_path_exists (DATA_DIR c @ ''/ollama.db'')),
               (fs, Os_rename (DATA_DIR c @ ''/ollama.db'') (DATA_DIR c @ ''/webui.db'')),
               (fs(DATA_DIR c @ ''/ollama.db'' := None, DATA_DIR c @ ''/webui.db'' \<mapsto> content),
                Log_info ''Database migrated from Ollama-WebUI successfully.'')] \<and>
            (DB_ENGINE c = Some ''postgres'' \<longrightarrow>
               fst (bootstrap e c fs) = Returned \<and>
               files w' =
                 fs(DATA_DIR c @ ''/ollama.db'' := None, DATA_DIR c @ ''/webui.db'' \<mapsto> content)))"
proof -
  from present have p: "fs (legacy_path c) = Some content"
    by (simp add: literals)
  have one: "bootstrap e c fs =
              (Raised x,
               \<lparr>files = fs,
                history =
                  [(fs, Os_path_exists (DATA_DIR c @ ''/ollama.db'')),
                   (fs, Os_rename (DATA_DIR c @ ''/ollama.db'') (DATA_DIR c @ ''/webui.db''))],
                DB = None\<rparr>)"
    if r: "os_rename e (DATA_DIR c @ ''/ollama.db'') (DATA_DIR c @ ''/webui.db'') fs = Inl x" for x
  proof -
    from r have "os_rename e (legacy_path c) (webui_path c) fs = Inl x"
      by (simp add: literals)
    from bootstrap_rename_raises [where fs = fs and c = c, OF p this] show ?thesis
      by (simp add: literals)
  qed
  have two: "fst (bootstrap e c fs) = Raised FileExistsError \<and> files w' = fs"
    if w: "platform e = Windows \<and> rename_fault e = None \<and> fs (DATA_DIR c @ ''/webui.db'') \<noteq> None"
  proof -
    from w present
    have "os_rename e (DATA_DIR c @ ''/ollama.db'') (DATA_DIR c @ ''/webui.db'') fs =
        Inl FileExistsError"
      by (auto simp: os_rename_def)
    from one [OF this] show ?thesis by (simp add: w'_def)
  qed
  have three: "take 3 (history w') =
              [(fs, Os_path_exists (DATA_DIR c @ ''/ollama.db'')),
               (fs, Os_rename (DATA_DIR c @ ''/ollama.db'') (DATA_DIR c @ ''/webui.db'')),
               (fs(DATA_DIR c @ ''/ollama.db'' := None, DATA_DIR c @ ''/webui.db'' \<mapsto> content),
                Log_info ''Database migrated from Ollama-WebUI successfully.'')] \<and>
            (DB_ENGINE c = Some ''postgres'' \<longrightarrow>
               fst (bootstrap e c fs) = Returned \<and>
               files w' =
                 fs(DATA_DIR c @ ''/ollama.db'' := None, DATA_DIR c @ ''/webui.db'' \<mapsto> content))"
    if u: "platform e = Posix \<and> rename_fault e = None"
  proof -
    let ?fs' = "fs(legacy_path c := None, webui_path c \<mapsto> content)"
    from u p have r: "os_rename e (legacy_path c) (webui_path c) fs = Inr ?fs'"
      by (simp add: os_rename_def)
    have b: "bootstrap e c fs =
      engine_selection e c (record_call (Log_info migrated_message)
        ((record_call (Os_rename (legacy_path c) (webui_path c))
           (record_call (Os_path_exists (legacy_path c)) (module_start fs)))\<lparr>files := ?fs'\<rparr>))"
      using p r
      by (simp add: bootstrap_def legacy_renames [where content = content] calls_module_start)
    from bootstrap_history_after_rename [where fs = fs and c = c, OF p r]
    have h: "take 3 (history w') =
              [(fs, Os_path_exists (DATA_DIR c @ ''/ollama.db'')),
               (fs, Os_rename (DATA_DIR c @ ''/ollama.db'') (DATA_DIR c @ ''/webui.db'')),
               (fs(DATA_DIR c @ ''/ollama.db'' := None, DATA_DIR c @ ''/webui.db'' \<mapsto> content),
                Log_info ''Database migrated from Ollama-WebUI successfully.'')]"
      by (simp add: w'_def literals)
    have g: "fst (bootstrap e c fs) = Returned \<and>
               files w' =
                 fs(DATA_DIR c @ ''/ollama.db'' := None, DATA_DIR c @ ''/webui.db'' \<mapsto> content)"
      if pg: "DB_ENGINE c = Some ''postgres''"
      by (simp add: w'_def b engine_postgres [OF pg] world_simps) (simp add: literals)
    from h g show ?thesis by blast
  qed
  from one two three show ?thesis by blast
qed

theorem rename_failure_fatal_witness:
  "both_files (DATA_DIR sqlite_config @ ''/ollama.db'') = Some ''X'' \<and>
   os_rename denied_env (DATA_DIR sqlite_config @ ''/ollama.db'')
       (DATA_DIR sqlite_config @ ''/webui.db'') both_files = Inl PermissionError \<and>
   fst (bootstrap denied_env sqlite_config both_files) = Raised PermissionError \<and>
   files (snd (bootstrap denied_env sqlite_config both_files)) = both_files \<and>
   platform windows_env = Windows \<and> rename_fault windows_env = None \<and>
   both_files (DATA_DIR sqlite_config @ ''/webui.db'') \<noteq> None \<and>
   fst (bootstrap windows_env sqlite_config both_files) = Raised FileExistsError \<and>
   files (snd (bootstrap windows_env sqlite_config both_files)) = both_files \<and>
   platform healthy_env = Posix \<and> rename_fault healthy_env = None \<and>
   DB_ENGINE postgres_config = Some ''postgres'' \<and>
   both_files (DATA_DIR postgres_config @ ''/ollama.db'') = Some ''X'' \<and>
   files (snd (bootstrap healthy_env postgres_config both_files)) ''/tmp/app/webui.db'' = Some ''X''"
proof -
  have d: "DATA_DIR sqlite_config = ''/tmp/app''" "DATA_DIR postgres_config = ''/tmp/app''"
    by (simp_all add: sqlite_config_def postgres_config_def)
  have a: "both_files (DATA_DIR sqlite_config @ ''/ollama.db'') = Some ''X''"
    "both_files (DATA_DIR postgres_config @ ''/ollama.db'') = Some ''X''"
    by (simp_all add: d both_files_def)
  have b: "os_rename denied_env (DATA_DIR sqlite_config @ ''/ollama.db'')
       (DATA_DIR sqlite_config @ ''/webui.db'') both_files = Inl PermissionError"
    by (simp add: os_rename_def d denied_env_def healthy_env_def both_files_def)
  have c: "platform windows_env = Windows \<and> rename_fault windows_env = None \<and>
     both_files (DATA_DIR sqlite_config @ ''/webui.db'') \<noteq> None"
    by (simp add: windows_env_def healthy_env_def d both_files_def)
  have e: "platform healthy_env = Posix \<and> rename_fault healthy_env = None"
    by (simp add: healthy_env_def)
  have pg: "DB_ENGINE postgres_config = Some ''postgres''"
    by (simp add: postgres_config_def)
  note t1 = rename_failure_fatal [where fs = both_files and c = sqlite_config
      and content = "''X''" and e = denied_env and x = PermissionError, OF a(1)]
  note t2 = rename_failure_fatal [where fs = both_files and c = sqlite_config
      and content = "''X''" and e = windows_env, OF a(1)]
  note t3 = rename_failure_fatal [where fs = both_files and c = postgres_config
      and content = "''X''" and e = healthy_env, OF a(2)]
  have r1: "fst (bootstrap denied_env sqlite_config both_files) = Raised PermissionError \<and>
     files (snd (bootstrap denied_env sqlite_config both_files)) = both_files"
    using b t1 by simp
  have r2: "fst (bootstrap windows_env sqlite_config both_files) = Raised FileExistsError \<and>
     files (snd (bootstrap windows_env sqlite_config both_files)) = both_files"
    using c t2 by blast
  have "files (snd (bootstrap healthy_env postgres_config both_files)) =
      both_files(DATA_DIR postgres_config @ ''/ollama.db'' := None,
                 DATA_DIR postgres_config @ ''/webui.db'' \<mapsto> ''X'')"
    using e pg t3 by blast
  then have r3: "files (snd (bootstrap healthy_env postgres_config both_files))
      ''/tmp/app/webui.db'' = Some ''X''"
    by (simp add: d)
  from a b c e pg r1 r2 r3 show ?thesis by blast
qed

text \<open>
  Claim C4 as stated says that the content of an existing \<open>webui.db\<close> is never discarded
  silently. On Unix, with \<open>X\<close> in \<open>ollama.db\<close> and \<open>Y\<close> in \<open>webui.db\<close>: on the postgres path the
  run completes without an exception, its only log entry reports the migration as
  successful, and \<open>Y\<close> is gone, \<open>webui.db\<close> holding \<open>X\<close>; on the URL path the same files
  are in place when line 16 logs the success. The script makes no check of the
  destination before line 15.
\<close>

theorem existing_webui_overwritten:
  "both_files ''/tmp/app/ollama.db'' = Some ''X'' \<and>
   both_files ''/tmp/app/webui.db'' = Some ''Y'' \<and>
   DATA_DIR postgres_config = ''/tmp/app'' \<and>
   fst (bootstrap healthy_env postgres_config both_files) = Returned \<and>
   files (snd (bootstrap healthy_env postgres_config both_files)) ''/tmp/app/webui.db'' =
     Some ''X'' \<and>
   files (snd (bootstrap healthy_env postgres_config both_files)) ''/tmp/app/ollama.db'' =
     None \<and>
   log_entries (calls (snd (bootstrap healthy_env postgres_config both_files))) =
     [''Database migrated from Ollama-WebUI successfully.''] \<and>
   DATA_DIR sqlite_config = ''/tmp/app'' \<and>
   snd (history (snd (bootstrap healthy_env sqlite_config both_files)) ! 2) =
     Log_info ''Database migrated from Ollama-WebUI successfully.'' \<and>
   fst (history (snd (bootstrap healthy_env sqlite_config both_files)) ! 2)
     ''/tmp/app/webui.db'' = Some ''X'' \<and>
   fst (history (snd (bootstrap healthy_env sqlite_config both_files)) ! 2)
     ''/tmp/app/ollama.db'' = None"
  by (simp add: run_defs demo_defs postgres_kwargs_def migrated_message_def)

section \<open>Engine selection (lines 21 to 37)\<close>

text \<open>
  Claim C2. With \<open>DB_ENGINE\<close> equal to \<open>"postgres"\<close>, whatever the surroundings answer
  (so whatever the migrations directory holds): \<open>Router.run\<close> is never called; the only
  call that builds a database object is \<open>PostgresqlExtDatabase\<close> with \<open>DB_NAME\<close> and the
  keywords user, password, host, port and schema taken from the configuration; and when
  lines 12 to 18 end without an exception the module completes with \<open>DB\<close> bound to that
  object, built exactly once. (A run that the rename aborts never reaches line 21 and
  builds no object at all.)
\<close>

theorem postgres_path:
  fixes e c fs
  defines "w' \<equiv> snd (bootstrap e c fs)"
  assumes pg: "DB_ENGINE c = Some ''postgres''"
  shows "filter is_migration_run (calls w') = []
       \<and> (\<forall>k\<in>set (calls w'). is_construction k \<longrightarrow>
            k = New_PostgresqlExtDatabase (DB_NAME c)
                  [(''user'', DB_USER c), (''password'', DB_PASSWORD c),
                   (''host'', DB_HOST c), (''port'', DB_PORT c), (''schema'', DB_SCHEMA c)])
       \<and> (fst (legacy_migration e c (module_start fs)) = Returned \<longrightarrow>
            fst (bootstrap e c fs) = Returned \<and>
            DB w' = Some \<lparr>class_name = ''PostgresqlExtDatabase'', db_name = DB_NAME c,
                          connect_params = [(''user'', DB_USER c), (''password'', DB_PASSWORD c),
                            (''host'', DB_HOST c), (''port'', DB_PORT c),
                            (''schema'', DB_SCHEMA c)]\<rparr> \<and>
            filter is_construction (calls w') =
              [New_PostgresqlExtDatabase (DB_NAME c)
                  [(''user'', DB_USER c), (''password'', DB_PASSWORD c),
                   (''host'', DB_HOST c), (''port'', DB_PORT c), (''schema'', DB_SCHEMA c)]])"
proof (cases "fst (legacy_migration e c (module_start fs))")
  case Returned
  have b: "bootstrap e c fs =
      (Returned,
       (record_call (New_PostgresqlExtDatabase (DB_NAME c) (postgres_kwargs c))
          ((snd (legacy_migration e c (module_start fs)))\<lparr>DB := None\<rparr>))
        \<lparr>DB := Some (PostgresqlExtDatabase (DB_NAME c) (postgres_kwargs c))\<rparr>)"
    by (simp add: bootstrap_returned [OF Returned] engine_postgres [OF pg])
  have f: "filter is_construction (calls w') =
      [New_PostgresqlExtDatabase (DB_NAME c) (postgres_kwargs c)]"
    by (simp add: w'_def b world_simps legacy_filters)
  have "\<forall>k\<in>set (filter is_construction (calls w')).
          k = New_PostgresqlExtDatabase (DB_NAME c) (postgres_kwargs c)"
    by (simp add: f)
  then have g: "\<forall>k\<in>set (calls w'). is_construction k \<longrightarrow>
          k = New_PostgresqlExtDatabase (DB_NAME c) (postgres_kwargs c)"
    by simp
  have m: "filter is_migration_run (calls w') = []"
    by (simp add: w'_def b world_simps legacy_filters)
  have d: "DB w' = Some (PostgresqlExtDatabase (DB_NAME c) (postgres_kwargs c))"
    by (simp add: w'_def b)
  from f g m d b show ?thesis
    by (simp add: postgres_kwargs_alt) (simp add: postgres_kwargs_def)
next
  case (Raised x)
  have b: "bootstrap e c fs = legacy_migration e c (module_start fs)"
    by (rule bootstrap_raised [OF Raised])
  have "\<forall>k\<in>set (filter is_construction (calls w')). False"
    by (simp add: w'_def b legacy_filters)
  then have g: "\<forall>k\<in>set (calls w'). \<not> is_construction k" by simp
  have m: "filter is_migration_run (calls w') = []"
    by (simp add: w'_def b legacy_filters)
  from g m Raised show ?thesis by simp
qed

theorem postgres_path_witness:
  "DB_ENGINE postgres_config = Some ''postgres'' \<and>
   fst (legacy_migration unreachable_env postgres_config (module_start legacy_only)) = Returned \<and>
   fst (bootstrap unreachable_env postgres_config legacy_only) = Returned \<and>
   filter is_migration_run (calls (snd (bootstrap unreachable_env postgres_config legacy_only))) = [] \<and>
   DB (snd (bootstrap unreachable_env postgres_config legacy_only)) =
     Some \<lparr>class_name = ''PostgresqlExtDatabase'', db_name = ''webui'',
           connect_params = [(''user'', ''app''), (''password'', ''secret''),
             (''host'', ''db''), (''port'', ''5432''), (''schema'', ''public'')]\<rparr>"
proof -
  have a: "DB_ENGINE postgres_config = Some ''postgres''"
    by (simp add: postgres_config_def)
  have b: "fst (legacy_migration unreachable_env postgres_config (module_start legacy_only)) = Returned"
    by (simp add: legacy_migration_def module_start_def record_call_def os_path_exists_def
        os_rename_def Let_def demo_defs)
  show ?thesis
    using a b postgres_path [OF a, of unreachable_env legacy_only]
    by (simp add: postgres_config_def)
qed

text \<open>
  Claim C3. With \<open>DB_ENGINE\<close> different from \<open>"postgres"\<close>: the only call that builds a
  database object is \<open>connect(DATABASE_URL)\<close>; \<open>Router.run\<close> is called at most once in any
  run, and exactly once, on the object that \<open>connect\<close> returned, as soon as lines 12 to
  18 end without an exception and \<open>connect\<close> returns; and whenever the module completes, so
  that the handle is available to its importers, \<open>DB\<close> is the object that \<open>connect\<close>
  returned, \<open>Router.run\<close> has been called exactly once and has returned normally, and the
  run ended with the calls of lines 33 to 37 in source order, the migration before the
  final \<open>DB.connect\<close>.
\<close>

theorem generic_path:
  fixes e c fs
  defines "w' \<equiv> snd (bootstrap e c fs)"
  assumes gen: "DB_ENGINE c \<noteq> Some ''postgres''"
  shows "(\<forall>k\<in>set (calls w'). is_construction k \<longrightarrow> k = Db_url_connect (DATABASE_URL c))
       \<and> length (filter is_migration_run (calls w')) \<le> 1
       \<and> (\<forall>h. fst (legacy_migration e c (module_start fs)) = Returned \<and>
               url_connect e (DATABASE_URL c) = Inr h \<longrightarrow>
               filter is_migration_run (calls w') = [Router_run h])
       \<and> (fst (bootstrap e c fs) = Returned \<longrightarrow>
            (\<exists>h pre. url_connect e (DATABASE_URL c) = Inr h \<and>
               run_migrations e h = None \<and> open_connection e h = None \<and>
               DB w' = Some h \<and>
               filter is_migration_run (calls w') = [Router_run h] \<and>
               filter is_construction (calls w') = [Db_url_connect (DATABASE_URL c)] \<and>
               calls w' = pre @ [Db_url_connect (DATABASE_URL c), Log_info (connected_message h),
                                 New_Router h migrate_dir, Router_run h,
                                 Database_connect h True]))"
proof (cases "fst (legacy_migration e c (module_start fs))")
  case (Raised x)
  have b: "bootstrap e c fs = legacy_migration e c (module_start fs)"
    by (rule bootstrap_raised [OF Raised])
  have f: "filter is_construction (calls w') = []" "filter is_migration_run (calls w') = []"
    by (simp_all add: w'_def b legacy_filters)
  from set_filter_none [OF f(1)] f(2) Raised b show ?thesis by simp
next
  case Returned
  let ?l = "snd (legacy_migration e c (module_start fs))"
  have b: "bootstrap e c fs = engine_selection e c ?l"
    by (rule bootstrap_returned [OF Returned])
  show ?thesis
  proof (rule engine_generic_cases [OF gen, where e = e and w = ?l])
    fix x
    assume u: "url_connect e (DATABASE_URL c) = Inl x"
      and r: "engine_selection e c ?l = (Raised x, after_connect e c ?l)"
    have f: "filter is_construction (calls w') = [Db_url_connect (DATABASE_URL c)]"
      "filter is_migration_run (calls w') = []"
      by (simp_all add: w'_def b r calls_after_connect legacy_filters)
    from set_filter_single [OF f(1)] f(2) u b r show ?thesis by simp
  next
    fix h x
    assume u: "url_connect e (DATABASE_URL c) = Inr h"
      and m: "run_migrations e h = Some x"
      and r: "engine_selection e c ?l = (Raised x, after_run e c h ?l)"
    have f: "filter is_construction (calls w') = [Db_url_connect (DATABASE_URL c)]"
      "filter is_migration_run (calls w') = [Router_run h]"
      by (simp_all add: w'_def b r calls_after_run legacy_filters)
    from set_filter_single [OF f(1)] f(2) u b r show ?thesis by simp
  next
    fix h x
    assume u: "url_connect e (DATABASE_URL c) = Inr h"
      and m: "run_migrations e h = None" and o: "open_connection e h = Some x"
      and r: "engine_selection e c ?l =
               (Raised x, after_open e c h ?l)"
    have f: "filter is_construction (calls w') = [Db_url_connect (DATABASE_URL c)]"
      "filter is_migration_run (calls w') = [Router_run h]"
      by (simp_all add: w'_def b r calls_after_run calls_after_open world_simps legacy_filters)
    from set_filter_single [OF f(1)] f(2) u b r show ?thesis by simp
  next
    fix h
    assume u: "url_connect e (DATABASE_URL c) = Inr h"
      and m: "run_migrations e h = None" and o: "open_connection e h = None"
      and r: "engine_selection e c ?l =
               (Returned, after_open e c h ?l)"
    have f: "filter is_construction (calls w') = [Db_url_connect (DATABASE_URL c)]"
      "filter is_migration_run (calls w') = [Router_run h]"
      by (simp_all add: w'_def b r calls_after_run calls_after_open world_simps legacy_filters)
    have d: "DB w' = Some h"
      by (simp add: w'_def b r world_simps DB_after_run DB_after_open)
    have k: "calls w' = calls ?l @ [Db_url_connect (DATABASE_URL c), Log_info (connected_message h),
                                 New_Router h migrate_dir, Router_run h,
                                 Database_connect h True]"
      by (simp add: w'_def b r calls_after_run calls_after_open world_simps)
    from set_filter_single [OF f(1)] f u m o d k show ?thesis by simp
  qed
qed

theorem generic_path_witness:
  "DB_ENGINE sqlite_config \<noteq> Some ''postgres'' \<and>
   fst (legacy_migration healthy_env sqlite_config (module_start legacy_only)) = Returned \<and>
   url_connect healthy_env (DATABASE_URL sqlite_config) = Inr sqlite_database \<and>
   filter is_migration_run (calls (snd (bootstrap healthy_env sqlite_config legacy_only))) =
     [Router_run sqlite_database] \<and>
   fst (bootstrap healthy_env sqlite_config legacy_only) = Returned"
proof -
  have a: "DB_ENGINE sqlite_config \<noteq> Some ''postgres''"
    by (simp add: sqlite_config_def)
  have b: "url_connect healthy_env (DATABASE_URL sqlite_config) = Inr sqlite_database"
    by (simp add: healthy_env_def)
  have c: "fst (bootstrap healthy_env sqlite_config legacy_only) = Returned"
    by (simp add: bootstrap_def legacy_migration_def engine_selection_def module_start_def
        record_call_def os_path_exists_def os_rename_def Let_def demo_defs)
  show ?thesis
    using a b c healthy_legacy_returns [of sqlite_config legacy_only]
      generic_path [OF a, of healthy_env legacy_only]
    by simp
qed

text \<open>
  Claim C8. The branch is taken by comparing \<open>DB_ENGINE\<close> with the string \<open>"postgres"\<close>:
  a run calls \<open>PostgresqlExtDatabase\<close> only if the value is exactly that string and calls
  \<open>connect(DATABASE_URL)\<close> only if it is anything else (unset, or a case variant such as
  \<open>"Postgres"\<close>); and once lines 12 to 18 have ended without an exception, exactly one of
  the two calls is made, chosen by that comparison.
\<close>

theorem engine_exact_match:
  fixes e c fs
  defines "cs \<equiv> calls (snd (bootstrap e c fs))"
  shows "((\<exists>k\<in>set cs. is_postgres_construction k) \<longrightarrow> DB_ENGINE c = Some ''postgres'')
       \<and> ((\<exists>k\<in>set cs. is_url_construction k) \<longrightarrow> DB_ENGINE c \<noteq> Some ''postgres'')
       \<and> (fst (legacy_migration e c (module_start fs)) = Returned \<longrightarrow>
            ((\<exists>k\<in>set cs. is_postgres_construction k) \<longleftrightarrow> DB_ENGINE c = Some ''postgres'') \<and>
            ((\<exists>k\<in>set cs. is_url_construction k) \<longleftrightarrow> DB_ENGINE c \<noteq> Some ''postgres''))"
proof (cases "fst (legacy_migration e c (module_start fs))")
  case (Raised x)
  have "cs = calls (snd (legacy_migration e c (module_start fs)))"
    by (simp add: cs_def bootstrap_raised [OF Raised])
  with legacy_no_engine_call [of e c fs] Raised show ?thesis by simp
next
  case Returned
  let ?l = "snd (legacy_migration e c (module_start fs))"
  have b: "cs = calls (snd (engine_selection e c ?l))"
    by (simp add: cs_def bootstrap_returned [OF Returned])
  show ?thesis
  proof (cases "DB_ENGINE c = Some ''postgres''")
    case True
    from engine_calls_postgres [OF True, of e ?l] legacy_no_engine_call [of e c fs] True
    show ?thesis by (auto simp: b)
  next
    case False
    from engine_calls_generic [OF False, of e ?l] legacy_no_engine_call [of e c fs] False
    show ?thesis by (auto simp: b)
  qed
qed

theorem engine_exact_match_witness:
  "fst (legacy_migration healthy_env capitalised_config (module_start no_files)) = Returned \<and>
   DB_ENGINE capitalised_config \<noteq> Some ''postgres'' \<and>
   (\<exists>k\<in>set (calls (snd (bootstrap healthy_env capitalised_config no_files))).
        is_url_construction k) \<and>
   \<not> (\<exists>k\<in>set (calls (snd (bootstrap healthy_env capitalised_config no_files))).
        is_postgres_construction k) \<and>
   fst (legacy_migration healthy_env postgres_config (module_start no_files)) = Returned \<and>
   DB_ENGINE postgres_config = Some ''postgres'' \<and>
   (\<exists>k\<in>set (calls (snd (bootstrap healthy_env postgres_config no_files))).
        is_postgres_construction k)"
proof -
  have a: "DB_ENGINE capitalised_config \<noteq> Some ''postgres''"
    by (simp add: capitalised_config_def)
  have b: "DB_ENGINE postgres_config = Some ''postgres''"
    by (simp add: postgres_config_def)
  note l1 = healthy_legacy_returns [of capitalised_config no_files]
  note l2 = healthy_legacy_returns [of postgres_config no_files]
  note t1 = engine_exact_match [of healthy_env capitalised_config no_files]
  note t2 = engine_exact_match [of healthy_env postgres_config no_files]
  show ?thesis
    using a b l1 l2 t1 t2 by blast
qed

text \<open>
  Claim C9. The whole run (outcome, files, global and history of calls) does not depend on
  the settings of the branch not taken: on the postgres path any value of \<open>DATABASE_URL\<close>
  gives the same run, and on the URL path any values of \<open>DB_NAME\<close>, \<open>DB_USER\<close>,
  \<open>DB_PASSWORD\<close>, \<open>DB_HOST\<close>, \<open>DB_PORT\<close> and \<open>DB_SCHEMA\<close> give the same run.
\<close>

theorem unused_settings_ignored:
  "(DB_ENGINE c = Some ''postgres'' \<longrightarrow>
      bootstrap e (c\<lparr>DATABASE_URL := url\<rparr>) fs = bootstrap e c fs)
   \<and> (DB_ENGINE c \<noteq> Some ''postgres'' \<longrightarrow>
      bootstrap e (c\<lparr>DB_NAME := name, DB_USER := user, DB_PASSWORD := password,
                     DB_HOST := host, DB_PORT := port, DB_SCHEMA := schema\<rparr>) fs =
      bootstrap e c fs)"
proof (intro conjI impI)
  assume pg: "DB_ENGINE c = Some ''postgres''"
  have "legacy_migration e (c\<lparr>DATABASE_URL := url\<rparr>) (module_start fs) =
        legacy_migration e c (module_start fs)"
    by (rule legacy_config_irrelevant) simp
  then show "bootstrap e (c\<lparr>DATABASE_URL := url\<rparr>) fs = bootstrap e c fs"
    by (simp add: bootstrap_def engine_url_irrelevant [OF pg] split: prod.splits outcome.splits)
next
  assume gen: "DB_ENGINE c \<noteq> Some ''postgres''"
  let ?c = "c\<lparr>DB_NAME := name, DB_USER := user, DB_PASSWORD := password,
              DB_HOST := host, DB_PORT := port, DB_SCHEMA := schema\<rparr>"
  have "legacy_migration e ?c (module_start fs) = legacy_migration e c (module_start fs)"
    by (rule legacy_config_irrelevant) simp
  then show "bootstrap e ?c fs = bootstrap e c fs"
    by (simp add: bootstrap_def engine_parameters_irrelevant [OF gen]
        split: prod.splits outcome.splits)
qed

theorem unused_settings_ignored_witness:
  "DB_ENGINE postgres_config = Some ''postgres'' \<and>
   bootstrap healthy_env (postgres_config\<lparr>DATABASE_URL := ''sqlite:///other.db''\<rparr>) legacy_only =
     bootstrap healthy_env postgres_config legacy_only \<and>
   DB_ENGINE sqlite_config \<noteq> Some ''postgres'' \<and>
   bootstrap healthy_env
     (sqlite_config\<lparr>DB_NAME := ''webui'', DB_USER := ''app'', DB_PASSWORD := ''secret'',
                     DB_HOST := ''db'', DB_PORT := ''5432'', DB_SCHEMA := ''public''\<rparr>) legacy_only =
     bootstrap healthy_env sqlite_config legacy_only"
proof -
  have a: "DB_ENGINE postgres_config = Some ''postgres''"
    by (simp add: postgres_config_def)
  have b: "DB_ENGINE sqlite_config \<noteq> Some ''postgres''"
    by (simp add: sqlite_config_def)
  show ?thesis
    using a b
      unused_settings_ignored [of postgres_config healthy_env "''sqlite:///other.db''" legacy_only]
      unused_settings_ignored [where c = sqlite_config and e = healthy_env and fs = legacy_only
        and name = "''webui''" and user = "''app''" and password = "''secret''"
        and host = "''db''" and port = "''5432''" and schema = "''public''"]
    by simp
qed

text \<open>
  Claim C10. Whenever the module body completes, \<open>DB\<close> is bound to a database object and
  not to the \<open>None\<close> of line 21: on the postgres path to the object built from the
  structured parameters, otherwise to the object that \<open>connect(DATABASE_URL)\<close> returned.
\<close>

theorem handle_published:
  assumes fin: "fst (bootstrap e c fs) = Returned"
  shows "DB (snd (bootstrap e c fs)) \<noteq> None
       \<and> (DB_ENGINE c = Some ''postgres'' \<longrightarrow>
            DB (snd (bootstrap e c fs)) =
              Some (PostgresqlExtDatabase (DB_NAME c) (postgres_kwargs c)))
       \<and> (DB_ENGINE c \<noteq> Some ''postgres'' \<longrightarrow>
            (\<exists>h. url_connect e (DATABASE_URL c) = Inr h \<and> DB (snd (bootstrap e c fs)) = Some h))"
proof (cases "fst (legacy_migration e c (module_start fs))")
  case (Raised x)
  with fin bootstrap_raised [OF Raised] show ?thesis by simp
next
  case Returned
  let ?l = "snd (legacy_migration e c (module_start fs))"
  have b: "bootstrap e c fs = engine_selection e c ?l"
    by (rule bootstrap_returned [OF Returned])
  show ?thesis
  proof (cases "DB_ENGINE c = Some ''postgres''")
    case True
    then show ?thesis by (simp add: b engine_postgres)
  next
    case False
    from fin show ?thesis
      by (rule_tac engine_generic_cases [OF False, where e = e and w = ?l])
         (simp_all add: b False world_simps DB_after_run DB_after_open)
  qed
qed

theorem handle_published_witness:
  "fst (bootstrap healthy_env sqlite_config legacy_only) = Returned \<and>
   DB (snd (bootstrap healthy_env sqlite_config legacy_only)) = Some sqlite_database \<and>
   fst (bootstrap healthy_env postgres_config legacy_only) = Returned \<and>
   DB (snd (bootstrap healthy_env postgres_config legacy_only)) \<noteq> None"
proof -
  have a: "fst (bootstrap healthy_env sqlite_config legacy_only) = Returned"
    by (simp add: bootstrap_def legacy_migration_def engine_selection_def module_start_def
        record_call_def os_path_exists_def os_rename_def Let_def demo_defs)
  have b: "fst (bootstrap healthy_env postgres_config legacy_only) = Returned"
    by (simp add: bootstrap_def legacy_migration_def engine_selection_def module_start_def
        record_call_def os_path_exists_def os_rename_def Let_def demo_defs)
  have c: "DB_ENGINE sqlite_config \<noteq> Some ''postgres''"
    by (simp add: sqlite_config_def)
  have d: "url_connect healthy_env (DATABASE_URL sqlite_config) = Inr sqlite_database"
    by (simp add: healthy_env_def)
  show ?thesis
    using a b c d handle_published [OF a] handle_published [OF b]
    by simp
qed

section \<open>Order of the two parts\<close>

text \<open>
  Claim C7. In every run, on either engine path, every rename call comes strictly before
  every call that builds a database object; no such call is ever issued while a file is at
  the legacy path; and when the legacy file was there at the start and an object is
  built, the rename has been called.
\<close>

theorem rename_precedes_construction:
  fixes e c fs
  defines "w' \<equiv> snd (bootstrap e c fs)"
  shows "(\<forall>i j. i < length (calls w') \<and> j < length (calls w') \<and>
               is_rename (calls w' ! i) \<and> is_construction (calls w' ! j) \<longrightarrow> i < j)
       \<and> (\<forall>x\<in>set (history w'). is_construction (snd x) \<longrightarrow> fst x (legacy_path c) = None)
       \<and> (fs (legacy_path c) \<noteq> None \<and> (\<exists>k\<in>set (calls w'). is_construction k) \<longrightarrow>
            (\<exists>k\<in>set (calls w'). is_rename k))"
proof (cases "fst (legacy_migration e c (module_start fs))")
  case (Raised x)
  have b: "bootstrap e c fs = legacy_migration e c (module_start fs)"
    by (rule bootstrap_raised [OF Raised])
  have n: "\<forall>x\<in>set (history w'). \<not> is_construction (snd x)"
    using legacy_no_construction [of e c fs] by (simp add: w'_def b)
  then have m: "\<forall>k\<in>set (calls w'). \<not> is_construction k"
    by (simp add: calls_def)
  have "\<forall>i j. i < length (calls w') \<and> j < length (calls w') \<and>
               is_rename (calls w' ! i) \<and> is_construction (calls w' ! j) \<longrightarrow> i < j"
    using m by (metis nth_mem)
  with n m show ?thesis by blast
next
  case Returned
  let ?l = "snd (legacy_migration e c (module_start fs))"
  from history_split [OF Returned] obtain post where
    h: "history w' = history ?l @ post"
    and p: "\<forall>x\<in>set post. \<not> is_rename (snd x) \<and>
             (is_construction (snd x) \<longrightarrow> fst x (legacy_path c) = None)"
    unfolding w'_def by blast
  have l: "\<forall>x\<in>set (history ?l). \<not> is_construction (snd x)"
    by (rule legacy_no_construction)
  have k: "calls w' = calls ?l @ map snd post"
    by (simp add: calls_def h)
  have "\<forall>k\<in>set (calls ?l). \<not> is_construction k" "\<forall>k\<in>set (map snd post). \<not> is_rename k"
    using l p by (simp_all add: calls_def)
  from order_from_split [OF k this]
  have one: "\<forall>i j. i < length (calls w') \<and> j < length (calls w') \<and>
               is_rename (calls w' ! i) \<and> is_construction (calls w' ! j) \<longrightarrow> i < j" .
  have two: "\<forall>x\<in>set (history w'). is_construction (snd x) \<longrightarrow> fst x (legacy_path c) = None"
    using l p by (auto simp: h)
  have three: "fs (legacy_path c) \<noteq> None \<longrightarrow> (\<exists>k\<in>set (calls w'). is_rename k)"
    using legacy_rename_when_present [of fs c e] by (auto simp: k)
  from one two three show ?thesis by blast
qed

theorem rename_precedes_construction_witness:
  "calls (snd (bootstrap healthy_env sqlite_config legacy_only)) ! 1 =
     Os_rename ''/tmp/app/ollama.db'' ''/tmp/app/webui.db'' \<and>
   calls (snd (bootstrap healthy_env sqlite_config legacy_only)) ! 3 =
     Db_url_connect ''sqlite:///tmp/app/webui.db'' \<and>
   (1::nat) < 3 \<and>
   legacy_only (legacy_path sqlite_config) \<noteq> None \<and>
   (\<exists>k\<in>set (calls (snd (bootstrap healthy_env sqlite_config legacy_only))). is_rename k)"
proof -
  have a: "calls (snd (bootstrap healthy_env sqlite_config legacy_only)) =
     [Os_path_exists ''/tmp/app/ollama.db'',
      Os_rename ''/tmp/app/ollama.db'' ''/tmp/app/webui.db'',
      Log_info migrated_message,
      Db_url_connect ''sqlite:///tmp/app/webui.db'',
      Log_info (connected_message sqlite_database),
      New_Router sqlite_database migrate_dir,
      Router_run sqlite_database,
      Database_connect sqlite_database True]"
    by (simp add: bootstrap_def legacy_migration_def engine_selection_def module_start_def
        record_call_def os_path_exists_def os_rename_def calls_def Let_def demo_defs)
  have b: "legacy_only (legacy_path sqlite_config) \<noteq> None"
    by (simp add: demo_defs)
  show ?thesis
    using b rename_precedes_construction [of healthy_env sqlite_config legacy_only]
    by (simp add: a)
qed

section \<open>Failures\<close>

text \<open>
  Claim C5, as amended. No exception is handled in the module. When \<open>os.rename\<close> raises,
  the run ends with that exception, with \<open>DB\<close> unbound and no database object built. On the
  URL path, once lines 12 to 18 have passed, an exception of \<open>connect\<close>, of \<open>Router.run\<close>
  or of the final \<open>DB.connect\<close> ends the run with that same exception. So a run that
  completes has had its rename (if any) succeed, and on the URL path it has also had
  \<open>connect\<close>, \<open>Router.run\<close> and \<open>DB.connect\<close> return normally, each called once. On the
  postgres path nothing that can fail is called after line 18: the run completes with a
  handle on which neither the migrations nor a connection were attempted.
\<close>

theorem failures_propagate:
  fixes e c fs
  defines "out \<equiv> fst (bootstrap e c fs)"
  defines "w' \<equiv> snd (bootstrap e c fs)"
  shows "(\<forall>content x. fs (legacy_path c) = Some content \<and>
            os_rename e (legacy_path c) (webui_path c) fs = Inl x \<longrightarrow>
            out = Raised x \<and> DB w' = None \<and> filter is_construction (calls w') = [])
       \<and> (DB_ENGINE c \<noteq> Some ''postgres'' \<and>
          fst (legacy_migration e c (module_start fs)) = Returned \<longrightarrow>
            (\<forall>x. url_connect e (DATABASE_URL c) = Inl x \<longrightarrow> out = Raised x \<and> DB w' = None) \<and>
            (\<forall>h x. url_connect e (DATABASE_URL c) = Inr h \<and> run_migrations e h = Some x \<longrightarrow>
                out = Raised x) \<and>
            (\<forall>h x. url_connect e (DATABASE_URL c) = Inr h \<and> run_migrations e h = None \<and>
                open_connection e h = Some x \<longrightarrow> out = Raised x))
       \<and> (out = Returned \<longrightarrow>
            (fs (legacy_path c) = None \<or>
             (\<exists>fs'. os_rename e (legacy_path c) (webui_path c) fs = Inr fs')))
       \<and> (out = Returned \<and> DB_ENGINE c \<noteq> Some ''postgres'' \<longrightarrow>
            (\<exists>h. url_connect e (DATABASE_URL c) = Inr h \<and> run_migrations e h = None \<and>
                 open_connection e h = None \<and> DB w' = Some h \<and>
                 filter is_migration_run (calls w') = [Router_run h] \<and>
                 filter is_connection_attempt (calls w') = [Database_connect h True]))
       \<and> (DB_ENGINE c = Some ''postgres'' \<and>
          fst (legacy_migration e c (module_start fs)) = Returned \<longrightarrow>
            out = Returned \<and>
            filter is_migration_run (calls w') = [] \<and>
            filter is_connection_attempt (calls w') = [])"
proof (intro conjI)
  show "\<forall>content x. fs (legacy_path c) = Some content \<and>
            os_rename e (legacy_path c) (webui_path c) fs = Inl x \<longrightarrow>
            out = Raised x \<and> DB w' = None \<and> filter is_construction (calls w') = []"
  proof (intro allI impI)
    fix content x
    assume a: "fs (legacy_path c) = Some content \<and>
            os_rename e (legacy_path c) (webui_path c) fs = Inl x"
    then have "bootstrap e c fs =
     (Raised x,
      \<lparr>files = fs,
       history = [(fs, Os_path_exists (legacy_path c)),
                  (fs, Os_rename (legacy_path c) (webui_path c))],
       DB = None\<rparr>)"
      using bootstrap_rename_raises [where fs = fs and c = c and content = content and e = e
          and x = x] by simp
    then show "out = Raised x \<and> DB w' = None \<and> filter is_construction (calls w') = []"
      by (simp add: out_def w'_def calls_def)
  qed
next
  show "DB_ENGINE c \<noteq> Some ''postgres'' \<and>
          fst (legacy_migration e c (module_start fs)) = Returned \<longrightarrow>
            (\<forall>x. url_connect e (DATABASE_URL c) = Inl x \<longrightarrow> out = Raised x \<and> DB w' = None) \<and>
            (\<forall>h x. url_connect e (DATABASE_URL c) = Inr h \<and> run_migrations e h = Some x \<longrightarrow>
                out = Raised x) \<and>
            (\<forall>h x. url_connect e (DATABASE_URL c) = Inr h \<and> run_migrations e h = None \<and>
                open_connection e h = Some x \<longrightarrow> out = Raised x)"
  proof
    assume a: "DB_ENGINE c \<noteq> Some ''postgres'' \<and>
          fst (legacy_migration e c (module_start fs)) = Returned"
    let ?l = "snd (legacy_migration e c (module_start fs))"
    from a have gen: "DB_ENGINE c \<noteq> Some ''postgres''" by simp
    from a have b: "bootstrap e c fs = engine_selection e c ?l"
      by (simp add: bootstrap_returned)
    show "(\<forall>x. url_connect e (DATABASE_URL c) = Inl x \<longrightarrow> out = Raised x \<and> DB w' = None) \<and>
            (\<forall>h x. url_connect e (DATABASE_URL c) = Inr h \<and> run_migrations e h = Some x \<longrightarrow>
                out = Raised x) \<and>
            (\<forall>h x. url_connect e (DATABASE_URL c) = Inr h \<and> run_migrations e h = None \<and>
                open_connection e h = Some x \<longrightarrow> out = Raised x)"
      by (rule engine_generic_cases [OF gen, where e = e and w = ?l])
         (simp_all add: out_def w'_def b after_connect_def world_simps)
  qed
next
  show "out = Returned \<longrightarrow>
            (fs (legacy_path c) = None \<or>
             (\<exists>fs'. os_rename e (legacy_path c) (webui_path c) fs = Inr fs'))"
    unfolding out_def using bootstrap_returned_legacy returned_means_renamed by blast
next
  show "out = Returned \<and> DB_ENGINE c \<noteq> Some ''postgres'' \<longrightarrow>
            (\<exists>h. url_connect e (DATABASE_URL c) = Inr h \<and> run_migrations e h = None \<and>
                 open_connection e h = None \<and> DB w' = Some h \<and>
                 filter is_migration_run (calls w') = [Router_run h] \<and>
                 filter is_connection_attempt (calls w') = [Database_connect h True])"
  proof
    assume a: "out = Returned \<and> DB_ENGINE c \<noteq> Some ''postgres''"
    let ?l = "snd (legacy_migration e c (module_start fs))"
    from a have gen: "DB_ENGINE c \<noteq> Some ''postgres''" by simp
    from a have r: "fst (legacy_migration e c (module_start fs)) = Returned"
      unfolding out_def using bootstrap_returned_legacy by blast
    have b: "bootstrap e c fs = engine_selection e c ?l"
      by (rule bootstrap_returned [OF r])
    from a have o: "fst (engine_selection e c ?l) = Returned"
      by (simp add: out_def b)
    from o show "\<exists>h. url_connect e (DATABASE_URL c) = Inr h \<and> run_migrations e h = None \<and>
                 open_connection e h = None \<and> DB w' = Some h \<and>
                 filter is_migration_run (calls w') = [Router_run h] \<and>
                 filter is_connection_attempt (calls w') = [Database_connect h True]"
      by (rule_tac engine_generic_cases [OF gen, where e = e and w = ?l])
         (simp_all add: w'_def b world_simps DB_after_run DB_after_open calls_after_run
            calls_after_open legacy_filters)
  qed
next
  show "DB_ENGINE c = Some ''postgres'' \<and>
          fst (legacy_migration e c (module_start fs)) = Returned \<longrightarrow>
            out = Returned \<and>
            filter is_migration_run (calls w') = [] \<and>
            filter is_connection_attempt (calls w') = []"
    by (simp add: out_def w'_def bootstrap_returned engine_postgres world_simps legacy_filters)
qed

theorem failures_propagate_witness:
  "fst (bootstrap denied_env sqlite_config legacy_only) = Raised PermissionError \<and>
   fst (bootstrap unreachable_env sqlite_config no_files) =
     Raised (LibraryError ''OperationalError'') \<and>
   fst (bootstrap broken_migration_env sqlite_config no_files) =
     Raised (LibraryError ''MigrationError'') \<and>
   fst (bootstrap refused_connection_env sqlite_config no_files) =
     Raised (LibraryError ''OperationalError'') \<and>
   fst (bootstrap healthy_env sqlite_config no_files) = Returned \<and>
   filter is_migration_run (calls (snd (bootstrap healthy_env sqlite_config no_files))) =
     [Router_run sqlite_database] \<and>
   fst (bootstrap healthy_env postgres_config no_files) = Returned"
proof -
  have gen: "DB_ENGINE sqlite_config \<noteq> Some ''postgres''"
    by (simp add: sqlite_config_def)
  have pg: "DB_ENGINE postgres_config = Some ''postgres''"
    by (simp add: postgres_config_def)
  have l: "\<And>e c. fst (legacy_migration e c (module_start no_files)) = Returned"
    by (simp add: legacy_absent no_files_def calls_module_start)
  have a1: "legacy_only (legacy_path sqlite_config) = Some ''X'' \<and>
      os_rename denied_env (legacy_path sqlite_config) (webui_path sqlite_config) legacy_only =
        Inl PermissionError"
    by (simp add: os_rename_def demo_defs)
  have a2: "url_connect unreachable_env (DATABASE_URL sqlite_config) =
      Inl (LibraryError ''OperationalError'')"
    by (simp add: unreachable_env_def)
  have a3: "url_connect broken_migration_env (DATABASE_URL sqlite_config) = Inr sqlite_database \<and>
      run_migrations broken_migration_env sqlite_database = Some (LibraryError ''MigrationError'')"
    by (simp add: broken_migration_env_def healthy_env_def)
  have a4: "url_connect refused_connection_env (DATABASE_URL sqlite_config) = Inr sqlite_database \<and>
      run_migrations refused_connection_env sqlite_database = None \<and>
      open_connection refused_connection_env sqlite_database =
        Some (LibraryError ''OperationalError'')"
    by (simp add: refused_connection_env_def healthy_env_def)
  have a5: "fst (bootstrap healthy_env sqlite_config no_files) = Returned"
    by (simp add: bootstrap_def legacy_migration_def engine_selection_def module_start_def
        record_call_def os_path_exists_def Let_def demo_defs)
  have a6: "url_connect healthy_env (DATABASE_URL sqlite_config) = Inr sqlite_database"
    by (simp add: healthy_env_def)
  have r1: "fst (bootstrap denied_env sqlite_config legacy_only) = Raised PermissionError"
    using a1 failures_propagate [where e = denied_env and c = sqlite_config and fs = legacy_only]
    by blast
  have r2: "fst (bootstrap unreachable_env sqlite_config no_files) =
     Raised (LibraryError ''OperationalError'')"
    using gen l a2
      failures_propagate [where e = unreachable_env and c = sqlite_config and fs = no_files]
    by blast
  have r3: "fst (bootstrap broken_migration_env sqlite_config no_files) =
     Raised (LibraryError ''MigrationError'')"
    using gen l a3
      failures_propagate [where e = broken_migration_env and c = sqlite_config and fs = no_files]
    by blast
  have r4: "fst (bootstrap refused_connection_env sqlite_config no_files) =
     Raised (LibraryError ''OperationalError'')"
    using gen l a4
      failures_propagate [where e = refused_connection_env and c = sqlite_config and fs = no_files]
    by blast
  have r5: "filter is_migration_run (calls (snd (bootstrap healthy_env sqlite_config no_files))) =
     [Router_run sqlite_database]"
    using gen a5 a6
      failures_propagate [where e = healthy_env and c = sqlite_config and fs = no_files]
    by auto
  have r6: "fst (bootstrap healthy_env postgres_config no_files) = Returned"
    using pg l
      failures_propagate [where e = healthy_env and c = postgres_config and fs = no_files]
    by blast
  from r1 r2 r3 r4 a5 r5 r6 show ?thesis by blast
qed

text \<open>
  Claim C5 as stated says that the bootstrap never completes with a partially initialised
  or unmigrated handle. With \<open>DB_ENGINE\<close> set to \<open>"postgres"\<close> and surroundings in which
  every connection and every migration fails (an unreachable server), the run completes
  and publishes a handle: no connection was opened and \<open>Router.run\<close> was never called.
\<close>

theorem unreachable_postgres_completes:
  "DB_ENGINE postgres_config = Some ''postgres'' \<and>
   fst (bootstrap unreachable_env postgres_config no_files) = Returned \<and>
   DB (snd (bootstrap unreachable_env postgres_config no_files)) =
     Some (PostgresqlExtDatabase ''webui''
       [(''user'', ''app''), (''password'', ''secret''), (''host'', ''db''),
        (''port'', ''5432''), (''schema'', ''public'')]) \<and>
   filter is_migration_run (calls (snd (bootstrap unreachable_env postgres_config no_files))) = [] \<and>
   filter is_connection_attempt
     (calls (snd (bootstrap unreachable_env postgres_config no_files))) = [] \<and>
   run_migrations unreachable_env
     (PostgresqlExtDatabase ''webui''
       [(''user'', ''app''), (''password'', ''secret''), (''host'', ''db''),
        (''port'', ''5432''), (''schema'', ''public'')]) = Some (LibraryError ''OperationalError'') \<and>
   open_connection unreachable_env
     (PostgresqlExtDatabase ''webui''
       [(''user'', ''app''), (''password'', ''secret''), (''host'', ''db''),
        (''port'', ''5432''), (''schema'', ''public'')]) = Some (LibraryError ''OperationalError'')"
  by (simp add: bootstrap_def legacy_migration_def engine_selection_def module_start_def
      record_call_def os_path_exists_def calls_def Let_def demo_defs postgres_kwargs_def)

end
